theory Spec2Isabelle
  imports Main
begin

section \<open>The remote file store behind the SFTP session\<close>

text \<open>
  The plugin drives a remote server through the calls \<open>Stat\<close>, \<open>Open\<close>, \<open>ReadAll\<close>,
  \<open>Create\<close>, \<open>Write\<close>, \<open>Close\<close>, \<open>Chmod\<close>, \<open>Remove\<close> and \<open>ReadDir\<close> of an external SFTP
  library. The server is modelled as a flat store of plain files. Every call first
  consults a script of transport faults: the head of the script, when it is an error,
  makes the call fail with that error and leaves the files alone. A call that meets no
  fault behaves as the library documents it; a file handle is represented by the path
  it was opened with, and a write through a handle whose file has been removed in the
  meantime is lost. \<open>ReadDir\<close> answers from a listing that the server keeps on its own.
  A file keeps the twelve mode bits that \<open>Chmod\<close> sends; \<open>Perm\<close> takes the nine
  permission bits of a mode, the only ones the program reads back.
\<close>

datatype sftp_err = NoSuchFile | StatusError string

fun IsNotExist :: "sftp_err \<Rightarrow> bool" where
  "IsNotExist NoSuchFile = True"
| "IsNotExist (StatusError m) = False"

fun sftp_Error :: "sftp_err \<Rightarrow> string" where
  "sftp_Error NoSuchFile = ''file does not exist''"
| "sftp_Error (StatusError m) = m"

record rfile =
  r_content :: string
  r_mode :: nat
  r_mtime :: nat

record stat =
  st_Size :: int
  st_Mode :: nat
  st_ModTime :: nat

record dirent =
  d_Name :: string
  d_IsDir :: bool

section \<open>Operations of package asyncsftp\<close>

datatype OperationState = StateInProgress | StateCompleted | StateFailure

datatype OperationType = OperationTypeUpload | OperationTypeDelete

record FileInfo =
  fi_Path :: string
  fi_Content :: string
  fi_Permissions :: string
  fi_Size :: int
  fi_ModifiedAt :: nat

record Operation =
  op_ID :: string
  op_Type :: OperationType
  op_Path :: string
  op_State :: OperationState
  op_Error :: string
  op_Result :: "FileInfo option"
  op_StartedAt :: nat
  op_CompletedAt :: nat

definition Copy :: "Operation \<Rightarrow> Operation" where
  "Copy o' = (case op_Result o' of None \<Rightarrow> o' | Some r \<Rightarrow> o'\<lparr>op_Result := Some r\<rparr>)"

text \<open>
  An \<open>Operation\<close> is a heap object: \<open>StartUpload\<close> and \<open>StartDelete\<close> allocate it, the
  client's map holds a pointer to it and so does the goroutine that executes the job.
  The world holds, besides the server's files and the fault script, the clock that
  \<open>time.Now\<close> reads (it ticks at every reading), the sequence of identifiers that
  \<open>uuid.New\<close> hands out, the heap of operations and the goroutines that are running.
  The program counter of such a goroutine names the statement of \<open>doUpload\<close> or
  \<open>doDelete\<close> it executes next; a step is one call of the SFTP library, the assignment
  to \<open>op.Result\<close>, or the call of \<open>completeOperation\<close>.
\<close>

type_synonym addr = nat

datatype pc =
    AtCreate
  | AtWrite
  | AtClose "sftp_err option"
  | AtChmod
  | AtStat
  | AtResult stat
  | AtRemove
  | AtComplete OperationState "string option"

record goroutine =
  g_op :: addr
  g_content :: string
  g_permissions :: nat
  g_pc :: pc

record world =
  files :: "string \<rightharpoonup> rfile"
  create_perm :: nat
  listing :: "string \<Rightarrow> sftp_err + dirent list"
  faults :: "sftp_err option list"
  clock :: nat
  uuid_seq :: "nat \<Rightarrow> string"
  uuid_used :: nat
  heap :: "addr \<Rightarrow> Operation"
  heap_next :: addr
  goroutines :: "goroutine list"

record Client =
  operations :: "string \<rightharpoonup> addr"

subsection \<open>The calls of the SFTP library\<close>

definition next_fault :: "world \<Rightarrow> sftp_err option" where
  "next_fault w = (case faults w of [] \<Rightarrow> None | f # fs \<Rightarrow> f)"

definition take_fault :: "world \<Rightarrow> sftp_err option \<times> world" where
  "take_fault w = (next_fault w, w\<lparr>faults := tl (faults w)\<rparr>)"

definition Perm :: "nat \<Rightarrow> nat" where
  "Perm m = m mod 512"

text \<open>
  \<open>Chmod\<close> sends the nine permission bits of the Go file mode together with the
  setuid, setgid and sticky bits, which it takes from their POSIX positions
  (\<open>04000\<close>, \<open>02000\<close>, \<open>01000\<close>) as well as from Go's own flags (bits 23, 22 and 20).
\<close>

definition toChmodPerm :: "nat \<Rightarrow> nat" where
  "toChmodPerm m =
     m mod 512
     + (if odd (m div 2 ^ 11) \<or> odd (m div 2 ^ 23) then 2048 else 0)
     + (if odd (m div 2 ^ 10) \<or> odd (m div 2 ^ 22) then 1024 else 0)
     + (if odd (m div 2 ^ 9) \<or> odd (m div 2 ^ 20) then 512 else 0)"

definition stat_of :: "rfile \<Rightarrow> stat" where
  "stat_of f = \<lparr>st_Size = int (length (r_content f)), st_Mode = r_mode f, st_ModTime = r_mtime f\<rparr>"

definition sftp_Stat :: "world \<Rightarrow> string \<Rightarrow> (sftp_err + stat) \<times> world" where
  "sftp_Stat w path =
     (case take_fault w of
        (Some e, w') \<Rightarrow> (Inl e, w')
      | (None, w') \<Rightarrow>
          (case files w' path of
             None \<Rightarrow> (Inl NoSuchFile, w')
           | Some f \<Rightarrow> (Inr (stat_of f), w')))"

definition sftp_Open :: "world \<Rightarrow> string \<Rightarrow> (sftp_err + string) \<times> world" where
  "sftp_Open w path =
     (case take_fault w of
        (Some e, w') \<Rightarrow> (Inl e, w')
      | (None, w') \<Rightarrow>
          (case files w' path of
             None \<Rightarrow> (Inl NoSuchFile, w')
           | Some f \<Rightarrow> (Inr path, w')))"

definition sftp_ReadAll :: "world \<Rightarrow> string \<Rightarrow> (sftp_err + string) \<times> world" where
  "sftp_ReadAll w f =
     (case take_fault w of
        (Some e, w') \<Rightarrow> (Inl e, w')
      | (None, w') \<Rightarrow>
          (case files w' f of
             None \<Rightarrow> (Inr [], w')
           | Some rf \<Rightarrow> (Inr (r_content rf), w')))"

definition sftp_Create :: "world \<Rightarrow> string \<Rightarrow> (sftp_err + string) \<times> world" where
  "sftp_Create w path =
     (case take_fault w of
        (Some e, w') \<Rightarrow> (Inl e, w')
      | (None, w') \<Rightarrow>
          (Inr path,
           w'\<lparr>files := (files w')(path \<mapsto>
                (case files w' path of
                   None \<Rightarrow> \<lparr>r_content = [], r_mode = create_perm w', r_mtime = clock w'\<rparr>
                 | Some f \<Rightarrow> f\<lparr>r_content := [], r_mtime := clock w'\<rparr>))\<rparr>))"

definition sftp_Write :: "world \<Rightarrow> string \<Rightarrow> string \<Rightarrow> sftp_err option \<times> world" where
  "sftp_Write w f content =
     (case take_fault w of
        (Some e, w') \<Rightarrow> (Some e, w')
      | (None, w') \<Rightarrow>
          (case files w' f of
             None \<Rightarrow> (None, w')
           | Some rf \<Rightarrow>
               (None, w'\<lparr>files := (files w')(f \<mapsto> rf\<lparr>r_content := content, r_mtime := clock w'\<rparr>)\<rparr>)))"

definition sftp_Close :: "world \<Rightarrow> string \<Rightarrow> sftp_err option \<times> world" where
  "sftp_Close w f = take_fault w"

definition sftp_Chmod :: "world \<Rightarrow> string \<Rightarrow> nat \<Rightarrow> sftp_err option \<times> world" where
  "sftp_Chmod w path permissions =
     (case take_fault w of
        (Some e, w') \<Rightarrow> (Some e, w')
      | (None, w') \<Rightarrow>
          (case files w' path of
             None \<Rightarrow> (Some NoSuchFile, w')
           | Some f \<Rightarrow>
               (None, w'\<lparr>files := (files w')(path \<mapsto> f\<lparr>r_mode := toChmodPerm permissions\<rparr>)\<rparr>)))"

definition sftp_Remove :: "world \<Rightarrow> string \<Rightarrow> sftp_err option \<times> world" where
  "sftp_Remove w path =
     (case take_fault w of
        (Some e, w') \<Rightarrow> (Some e, w')
      | (None, w') \<Rightarrow>
          (case files w' path of
             None \<Rightarrow> (Some NoSuchFile, w')
           | Some f \<Rightarrow> (None, w'\<lparr>files := (files w')(path := None)\<rparr>)))"

definition sftp_ReadDir :: "world \<Rightarrow> string \<Rightarrow> (sftp_err + dirent list) \<times> world" where
  "sftp_ReadDir w dir =
     (case take_fault w of
        (Some e, w') \<Rightarrow> (Inl e, w')
      | (None, w') \<Rightarrow> (listing w' dir, w'))"

subsection \<open>Formatting and scanning permission bits\<close>

definition octal_digit :: "nat \<Rightarrow> char" where
  "octal_digit d = ''01234567'' ! d"

fun octal :: "nat \<Rightarrow> string" where
  "octal n = (if n < 8 then [octal_digit n] else octal (n div 8) @ [octal_digit (n mod 8)])"

declare octal.simps [simp del]

definition Sprintf_04o :: "nat \<Rightarrow> string" where
  "Sprintf_04o n = replicate (4 - length (octal n)) CHR ''0'' @ octal n"

subsection \<open>The client: starting jobs and reading their status\<close>

datatype error = ErrNotFound | Errorf string

fun Error :: "error \<Rightarrow> string" where
  "Error ErrNotFound = ''file not found''"
| "Error (Errorf m) = m"

definition Now :: "world \<Rightarrow> nat \<times> world" where
  "Now w = (clock w, w\<lparr>clock := Suc (clock w)\<rparr>)"

definition uuid_New :: "world \<Rightarrow> string \<times> world" where
  "uuid_New w = (uuid_seq w (uuid_used w), w\<lparr>uuid_used := Suc (uuid_used w)\<rparr>)"

definition new_Operation :: "world \<Rightarrow> Operation \<Rightarrow> addr \<times> world" where
  "new_Operation w op = (heap_next w, w\<lparr>heap := (heap w)(heap_next w := op), heap_next := Suc (heap_next w)\<rparr>)"

definition spawn :: "world \<Rightarrow> goroutine \<Rightarrow> world" where
  "spawn w g = w\<lparr>goroutines := goroutines w @ [g]\<rparr>"

definition StartUpload :: "Client \<Rightarrow> world \<Rightarrow> string \<Rightarrow> string \<Rightarrow> nat \<Rightarrow> string \<times> Client \<times> world" where
  "StartUpload c w path content permissions =
     (case uuid_New w of (opID, w1) \<Rightarrow>
      case Now w1 of (now, w2) \<Rightarrow>
      case new_Operation w2
             \<lparr>op_ID = opID, op_Type = OperationTypeUpload, op_Path = path,
              op_State = StateInProgress, op_Error = [], op_Result = None,
              op_StartedAt = now, op_CompletedAt = 0\<rparr> of (op, w3) \<Rightarrow>
      (opID,
       c\<lparr>operations := (operations c)(opID \<mapsto> op)\<rparr>,
       spawn w3 \<lparr>g_op = op, g_content = content, g_permissions = permissions, g_pc = AtCreate\<rparr>))"

definition StartDelete :: "Client \<Rightarrow> world \<Rightarrow> string \<Rightarrow> string \<times> Client \<times> world" where
  "StartDelete c w path =
     (case uuid_New w of (opID, w1) \<Rightarrow>
      case Now w1 of (now, w2) \<Rightarrow>
      case new_Operation w2
             \<lparr>op_ID = opID, op_Type = OperationTypeDelete, op_Path = path,
              op_State = StateInProgress, op_Error = [], op_Result = None,
              op_StartedAt = now, op_CompletedAt = 0\<rparr> of (op, w3) \<Rightarrow>
      (opID,
       c\<lparr>operations := (operations c)(opID \<mapsto> op)\<rparr>,
       spawn w3 \<lparr>g_op = op, g_content = [], g_permissions = 0, g_pc = AtRemove\<rparr>))"

definition GetStatus :: "Client \<Rightarrow> world \<Rightarrow> string \<Rightarrow> error + Operation" where
  "GetStatus c w operationID =
     (case operations c operationID of
        None \<Rightarrow> Inl (Errorf (''operation not found: '' @ operationID))
      | Some op \<Rightarrow> Inr (Copy (heap w op)))"

definition ReadFile :: "world \<Rightarrow> string \<Rightarrow> (error + FileInfo) \<times> world" where
  "ReadFile w path =
     (case sftp_Stat w path of
        (Inl err, w1) \<Rightarrow>
          (if IsNotExist err then (Inl ErrNotFound, w1)
           else (Inl (Errorf (''stat failed: '' @ sftp_Error err)), w1))
      | (Inr st, w1) \<Rightarrow>
          (case sftp_Open w1 path of
             (Inl err, w2) \<Rightarrow> (Inl (Errorf (''open failed: '' @ sftp_Error err)), w2)
           | (Inr f, w2) \<Rightarrow>
               (case sftp_ReadAll w2 f of
                  (Inl err, w3) \<Rightarrow>
                    (Inl (Errorf (''read failed: '' @ sftp_Error err)), snd (sftp_Close w3 f))
                | (Inr content, w3) \<Rightarrow>
                    (Inr \<lparr>fi_Path = path, fi_Content = content,
                          fi_Permissions = Sprintf_04o (Perm (st_Mode st)),
                          fi_Size = st_Size st, fi_ModifiedAt = st_ModTime st\<rparr>,
                     snd (sftp_Close w3 f)))))"

definition SetPermissions :: "world \<Rightarrow> string \<Rightarrow> nat \<Rightarrow> sftp_err option \<times> world" where
  "SetPermissions w path permissions = sftp_Chmod w path permissions"

definition ListFiles :: "world \<Rightarrow> string \<Rightarrow> (error + string list) \<times> world" where
  "ListFiles w dir =
     (case sftp_ReadDir w dir of
        (Inl err, w1) \<Rightarrow>
          (if IsNotExist err then (Inl ErrNotFound, w1)
           else (Inl (Errorf (''readdir failed: '' @ sftp_Error err)), w1))
      | (Inr entries, w1) \<Rightarrow>
          (Inr (map (\<lambda>entry. dir @ ''/'' @ d_Name entry) (filter (\<lambda>entry. \<not> d_IsDir entry) entries)), w1))"

subsection \<open>The body of a job\<close>

definition completeOperation :: "world \<Rightarrow> addr \<Rightarrow> OperationState \<Rightarrow> string option \<Rightarrow> world" where
  "completeOperation w op state err =
     (case Now w of (now, w1) \<Rightarrow>
      w1\<lparr>heap := (heap w1)(op := (heap w1 op)
            \<lparr>op_State := state, op_CompletedAt := now,
             op_Error := (case err of None \<Rightarrow> op_Error (heap w1 op) | Some m \<Rightarrow> m)\<rparr>)\<rparr>)"

definition set_Result :: "world \<Rightarrow> addr \<Rightarrow> string \<Rightarrow> stat \<Rightarrow> world" where
  "set_Result w op content st =
     w\<lparr>heap := (heap w)(op := (heap w op)
          \<lparr>op_Result := Some \<lparr>fi_Path = op_Path (heap w op), fi_Content = content,
                               fi_Permissions = Sprintf_04o (Perm (st_Mode st)),
                               fi_Size = st_Size st, fi_ModifiedAt = st_ModTime st\<rparr>\<rparr>)\<rparr>"

definition doUpload :: "world \<Rightarrow> addr \<Rightarrow> string \<Rightarrow> nat \<Rightarrow> world" where
  "doUpload w op content permissions =
     (case sftp_Create w (op_Path (heap w op)) of
        (Inl err, w1) \<Rightarrow>
          completeOperation w1 op StateFailure (Some (''create failed: '' @ sftp_Error err))
      | (Inr f, w1) \<Rightarrow>
          (case sftp_Write w1 f content of (err, w2) \<Rightarrow>
           case sftp_Close w2 f of (closeErr, w3) \<Rightarrow>
           (case (if closeErr \<noteq> None \<and> err = None then closeErr else err) of
              Some err' \<Rightarrow>
                completeOperation w3 op StateFailure (Some (''write failed: '' @ sftp_Error err'))
            | None \<Rightarrow>
                (case sftp_Chmod w3 (op_Path (heap w3 op)) permissions of
                   (Some err', w4) \<Rightarrow>
                     completeOperation w4 op StateFailure (Some (''chmod failed: '' @ sftp_Error err'))
                 | (None, w4) \<Rightarrow>
                     (case sftp_Stat w4 (op_Path (heap w4 op)) of
                        (Inl err', w5) \<Rightarrow>
                          completeOperation w5 op StateFailure (Some (''stat failed: '' @ sftp_Error err'))
                      | (Inr st, w5) \<Rightarrow>
                          completeOperation (set_Result w5 op content st) op StateCompleted None)))))"

definition doDelete :: "world \<Rightarrow> addr \<Rightarrow> world" where
  "doDelete w op =
     (case sftp_Remove w (op_Path (heap w op)) of
        (Some err, w1) \<Rightarrow>
          (if IsNotExist err then completeOperation w1 op StateCompleted None
           else completeOperation w1 op StateFailure (Some (''remove failed: '' @ sftp_Error err)))
      | (None, w1) \<Rightarrow> completeOperation w1 op StateCompleted None)"

subsection \<open>Jobs as goroutines\<close>

text \<open>
  \<open>go c.doUpload(op, content, permissions)\<close> and \<open>go c.doDelete(op)\<close> run the bodies
  above concurrently with their callers. \<open>go_step\<close> executes the next statement of
  such a body; it returns the goroutine at its next program point, or \<open>None\<close> when the
  body has returned.
\<close>

definition go_step :: "world \<Rightarrow> goroutine \<Rightarrow> world \<times> goroutine option" where
  "go_step w g =
     (case g_pc g of
        AtCreate \<Rightarrow>
          (case sftp_Create w (op_Path (heap w (g_op g))) of
             (Inl err, w1) \<Rightarrow>
               (w1, Some (g\<lparr>g_pc := AtComplete StateFailure (Some (''create failed: '' @ sftp_Error err))\<rparr>))
           | (Inr f, w1) \<Rightarrow> (w1, Some (g\<lparr>g_pc := AtWrite\<rparr>)))
      | AtWrite \<Rightarrow>
          (case sftp_Write w (op_Path (heap w (g_op g))) (g_content g) of
             (err, w1) \<Rightarrow> (w1, Some (g\<lparr>g_pc := AtClose err\<rparr>)))
      | AtClose err \<Rightarrow>
          (case sftp_Close w (op_Path (heap w (g_op g))) of
             (closeErr, w1) \<Rightarrow>
               (case (if closeErr \<noteq> None \<and> err = None then closeErr else err) of
                  Some err' \<Rightarrow>
                    (w1, Some (g\<lparr>g_pc := AtComplete StateFailure (Some (''write failed: '' @ sftp_Error err'))\<rparr>))
                | None \<Rightarrow> (w1, Some (g\<lparr>g_pc := AtChmod\<rparr>))))
      | AtChmod \<Rightarrow>
          (case sftp_Chmod w (op_Path (heap w (g_op g))) (g_permissions g) of
             (Some err', w1) \<Rightarrow>
               (w1, Some (g\<lparr>g_pc := AtComplete StateFailure (Some (''chmod failed: '' @ sftp_Error err'))\<rparr>))
           | (None, w1) \<Rightarrow> (w1, Some (g\<lparr>g_pc := AtStat\<rparr>)))
      | AtStat \<Rightarrow>
          (case sftp_Stat w (op_Path (heap w (g_op g))) of
             (Inl err', w1) \<Rightarrow>
               (w1, Some (g\<lparr>g_pc := AtComplete StateFailure (Some (''stat failed: '' @ sftp_Error err'))\<rparr>))
           | (Inr st, w1) \<Rightarrow> (w1, Some (g\<lparr>g_pc := AtResult st\<rparr>)))
      | AtResult st \<Rightarrow>
          (set_Result w (g_op g) (g_content g) st, Some (g\<lparr>g_pc := AtComplete StateCompleted None\<rparr>))
      | AtRemove \<Rightarrow>
          (case sftp_Remove w (op_Path (heap w (g_op g))) of
             (Some err, w1) \<Rightarrow>
               (if IsNotExist err then (w1, Some (g\<lparr>g_pc := AtComplete StateCompleted None\<rparr>))
                else (w1, Some (g\<lparr>g_pc := AtComplete StateFailure (Some (''remove failed: '' @ sftp_Error err))\<rparr>)))
           | (None, w1) \<Rightarrow> (w1, Some (g\<lparr>g_pc := AtComplete StateCompleted None\<rparr>)))
      | AtComplete state err \<Rightarrow> (completeOperation w (g_op g) state err, None))"

text \<open>
  The scheduler picks a goroutine by its position among the running ones and lets it
  take one step; a position that names no goroutine is an idle moment. A schedule is a
  list of such picks.
\<close>

definition sched_step :: "nat \<Rightarrow> world \<Rightarrow> world" where
  "sched_step i w =
     (if i < length (goroutines w) then
        (case go_step w (goroutines w ! i) of
           (w1, None) \<Rightarrow> w1\<lparr>goroutines := take i (goroutines w1) @ drop (Suc i) (goroutines w1)\<rparr>
         | (w1, Some g') \<Rightarrow> w1\<lparr>goroutines := (goroutines w1)[i := g']\<rparr>)
      else w)"

fun run_sched :: "nat list \<Rightarrow> world \<Rightarrow> world" where
  "run_sched [] w = w"
| "run_sched (i # is) w = run_sched is (sched_step i w)"

text \<open>
  The loops \<open>for { op, err := client.GetStatus(opID); ... }\<close> of \<open>Update\<close> and \<open>Delete\<close>
  spin until the job is terminal. Between two calls of \<open>GetStatus\<close> the goroutines take
  the steps the schedule gives them; when the schedule is used up and the job is still
  in progress, the loop has not returned: \<open>None\<close>. A verb is taken to run without
  interruption except where it waits in such a loop.
\<close>

fun poll :: "nat list list \<Rightarrow> Client \<Rightarrow> world \<Rightarrow> string \<Rightarrow> ((error + Operation) \<times> world) option" where
  "poll [] c w opID = None"
| "poll (steps # sched) c w opID =
     (case GetStatus c (run_sched steps w) opID of
        Inl err \<Rightarrow> Some (Inl err, run_sched steps w)
      | Inr op \<Rightarrow>
          (if op_State op = StateCompleted then Some (Inr op, run_sched steps w)
           else if op_State op = StateFailure then Some (Inr op, run_sched steps w)
           else poll sched c (run_sched steps w) opID))"

section \<open>The plugin\<close>

subsection \<open>Requests, results and the process environment\<close>

text \<open>
  A raw JSON message is represented by what \<open>json.Unmarshal\<close> makes of it: an error
  text, or the decoded struct, in which an absent field holds the empty string. The
  JSON text that \<open>json.Marshal\<close> produces for a result is represented by the struct it
  encodes. \<open>url.Parse\<close>, the two credential variables, the SSH dial-up and the time
  layout belong to the environment of the process.
\<close>

datatype 'a json = Malformed string | Decoded 'a

record TargetConfig =
  tc_URL :: string

record FileProperties =
  fp_Path :: string
  fp_Content :: string
  fp_Permissions :: string
  fp_Size :: int
  fp_ModifiedAt :: string

record env =
  url_Parse :: "string \<Rightarrow> string + (string \<times> string \<times> string)"
  SFTP_USERNAME :: string
  SFTP_PASSWORD :: string
  ssh_Dial :: "string \<Rightarrow> string option"
  sftp_NewClient :: "string option"
  time_Format :: "nat \<Rightarrow> string"

record Plugin =
  p_client :: "Client option"

datatype ResourceOperation =
  OperationCreate | OperationUpdate | OperationDelete | OperationCheckStatus

datatype OperationStatus =
  OperationStatusSuccess | OperationStatusFailure | OperationStatusInProgress

datatype OperationErrorCode =
  OperationErrorCodeInvalidRequest | OperationErrorCodeInternalFailure | OperationErrorCodeNotFound

record ProgressResult =
  pr_Operation :: ResourceOperation
  pr_OperationStatus :: OperationStatus
  pr_ErrorCode :: "OperationErrorCode option"
  pr_StatusMessage :: string
  pr_RequestID :: string
  pr_NativeID :: string
  pr_ResourceProperties :: "FileProperties option"

record ReadResult =
  rr_ResourceType :: string
  rr_Properties :: "FileProperties option"
  rr_ErrorCode :: "OperationErrorCode option"

record ListResult =
  lr_NativeIDs :: "string list"
  lr_NextPageToken :: "string option"

record CreateRequest =
  cq_Properties :: "FileProperties json"
  cq_TargetConfig :: "TargetConfig json"

record ReadRequest =
  rq_NativeID :: string
  rq_ResourceType :: string
  rq_TargetConfig :: "TargetConfig json"

record UpdateRequest =
  uq_NativeID :: string
  uq_PriorProperties :: "FileProperties json"
  uq_DesiredProperties :: "FileProperties json"
  uq_TargetConfig :: "TargetConfig json"

record DeleteRequest =
  dq_NativeID :: string
  dq_TargetConfig :: "TargetConfig json"

record StatusRequest =
  sq_RequestID :: string

record ListRequest =
  lq_TargetConfig :: "TargetConfig json"
  lq_AdditionalProperties :: "string \<rightharpoonup> string"

text \<open>A verb returns its result and a Go error; it may change the plugin and the world.\<close>

type_synonym 'r ret = "('r \<times> error option) \<times> Plugin \<times> world"

subsection \<open>Parsing the target and the file properties\<close>

definition parseTargetConfig :: "TargetConfig json \<Rightarrow> error + TargetConfig" where
  "parseTargetConfig data =
     (case data of
        Malformed m \<Rightarrow> Inl (Errorf (''invalid target config: '' @ m))
      | Decoded cfg \<Rightarrow>
          (if tc_URL cfg = [] then
             Inl (Errorf (''target config missing '' @ [CHR 0x27] @ ''url'' @ [CHR 0x27]))
           else Inr cfg))"

definition parseURL :: "env \<Rightarrow> string \<Rightarrow> error + (string \<times> string)" where
  "parseURL e sftpURL =
     (case url_Parse e sftpURL of
        Inl m \<Rightarrow> Inl (Errorf (''invalid URL: '' @ m))
      | Inr (scheme, hostname, port) \<Rightarrow>
          (if scheme \<noteq> ''sftp'' then
             Inl (Errorf (''expected sftp:// URL, got '' @ scheme @ ''://''))
           else Inr (hostname, if port = [] then ''22'' else port)))"

definition getCredentials :: "env \<Rightarrow> error + (string \<times> string)" where
  "getCredentials e =
     (if SFTP_USERNAME e = [] \<or> SFTP_PASSWORD e = [] then
        Inl (Errorf ''SFTP_USERNAME and SFTP_PASSWORD must be set'')
      else Inr (SFTP_USERNAME e, SFTP_PASSWORD e))"

definition parseFileProperties :: "FileProperties json \<Rightarrow> error + FileProperties" where
  "parseFileProperties data =
     (case data of
        Malformed m \<Rightarrow> Inl (Errorf (''invalid file properties: '' @ m))
      | Decoded props \<Rightarrow>
          (if fp_Path props = [] then
             Inl (Errorf (''file properties missing '' @ [CHR 0x27] @ ''path'' @ [CHR 0x27]))
           else if fp_Permissions props = [] then Inr (props\<lparr>fp_Permissions := ''0644''\<rparr>)
           else Inr props))"

text \<open>
  \<open>fmt.Sscanf(s, "%o", &perm)\<close> skips leading space runes (a newline is not one of
  them), takes the longest run of the digits \<open>0\<close> to \<open>7\<close>, and stores its value in the
  32-bit \<open>perm\<close>; what follows the digits is left unread. It fails, and leaves \<open>perm\<close>
  as it was, when there is no digit or the number does not fit.
\<close>

definition space_len :: "string \<Rightarrow> nat" where
  "space_len s =
     (let bs = map of_char s :: nat list in
      if take 1 bs \<in> set [[0x09], [0x0B], [0x0C], [0x0D], [0x20]] then 1
      else if take 2 bs \<in> set [[0xC2, 0x85], [0xC2, 0xA0]] then 2
      else if take 3 bs \<in> set ([[0xE1, 0x9A, 0x80], [0xE2, 0x80, 0xA8], [0xE2, 0x80, 0xA9],
                                   [0xE2, 0x80, 0xAF], [0xE2, 0x81, 0x9F], [0xE3, 0x80, 0x80]]
                                  @ map (\<lambda>b. [0xE2, 0x80, b]) [0x80 ..< 0x8B]) then 3
      else 0)"

function SkipSpace :: "string \<Rightarrow> string" where
  "SkipSpace s = (if space_len s = 0 then s else SkipSpace (drop (space_len s) s))"
  by pat_completeness auto
termination
proof (relation "measure length")
  show "wf (measure length)" by simp
next
  fix s :: string
  assume "space_len s \<noteq> 0"
  moreover have "space_len [] = 0" by (simp add: space_len_def)
  ultimately have "s \<noteq> []" by auto
  with \<open>space_len s \<noteq> 0\<close> show "(drop (space_len s) s, s) \<in> measure length" by simp
qed

declare SkipSpace.simps [simp del]

fun octal_value :: "nat \<Rightarrow> string \<Rightarrow> nat" where
  "octal_value acc [] = acc"
| "octal_value acc (c # cs) = octal_value (8 * acc + (of_char c - 48)) cs"

definition Sscanf_o :: "string \<Rightarrow> nat option" where
  "Sscanf_o s =
     (let tok = takeWhile (\<lambda>c. c \<in> set ''01234567'') (SkipSpace s) in
      if tok = [] then None
      else if octal_value 0 tok < 2 ^ 32 then Some (octal_value 0 tok)
      else None)"

definition parse_perm :: "string \<Rightarrow> nat" where
  "parse_perm permissions =
     (if permissions \<noteq> [] then
        (case Sscanf_o permissions of None \<Rightarrow> 420 | Some m \<Rightarrow> m)
      else 420)"

subsection \<open>Obtaining the client\<close>

definition NewClient :: "env \<Rightarrow> string \<Rightarrow> string \<Rightarrow> error + Client" where
  "NewClient e host port =
     (case ssh_Dial e (host @ '':'' @ port) of
        Some m \<Rightarrow> Inl (Errorf (''ssh dial failed: '' @ m))
      | None \<Rightarrow>
          (case sftp_NewClient e of
             Some m \<Rightarrow> Inl (Errorf (''sftp client failed: '' @ m))
           | None \<Rightarrow> Inr \<lparr>operations = Map.empty\<rparr>))"

definition getClient :: "env \<Rightarrow> Plugin \<Rightarrow> TargetConfig json \<Rightarrow> (error + Client) \<times> Plugin" where
  "getClient e p targetConfig =
     (case p_client p of
        Some client \<Rightarrow> (Inr client, p)
      | None \<Rightarrow>
          (case parseTargetConfig targetConfig of
             Inl err \<Rightarrow> (Inl err, p)
           | Inr cfg \<Rightarrow>
               (case parseURL e (tc_URL cfg) of
                  Inl err \<Rightarrow> (Inl err, p)
                | Inr (host, port) \<Rightarrow>
                    (case getCredentials e of
                       Inl err \<Rightarrow> (Inl err, p)
                     | Inr (username, password) \<Rightarrow>
                         (case NewClient e host port of
                            Inl err \<Rightarrow> (Inl (Errorf (''failed to create SFTP client: '' @ Error err)), p)
                          | Inr client \<Rightarrow> (Inr client, p\<lparr>p_client := Some client\<rparr>))))))"

subsection \<open>The six verbs\<close>

definition Failure :: "ResourceOperation \<Rightarrow> OperationErrorCode \<Rightarrow> string \<Rightarrow> ProgressResult" where
  "Failure oper code message =
     \<lparr>pr_Operation = oper, pr_OperationStatus = OperationStatusFailure,
      pr_ErrorCode = Some code, pr_StatusMessage = message,
      pr_RequestID = [], pr_NativeID = [], pr_ResourceProperties = None\<rparr>"

definition properties_of :: "env \<Rightarrow> FileInfo \<Rightarrow> FileProperties" where
  "properties_of e fileInfo =
     \<lparr>fp_Path = fi_Path fileInfo, fp_Content = fi_Content fileInfo,
      fp_Permissions = fi_Permissions fileInfo, fp_Size = fi_Size fileInfo,
      fp_ModifiedAt = time_Format e (fi_ModifiedAt fileInfo)\<rparr>"

definition Create :: "env \<Rightarrow> Plugin \<Rightarrow> world \<Rightarrow> CreateRequest \<Rightarrow> ProgressResult ret" where
  "Create e p w req =
     (case parseFileProperties (cq_Properties req) of
        Inl err \<Rightarrow>
          ((Failure OperationCreate OperationErrorCodeInvalidRequest (Error err), None), p, w)
      | Inr props \<Rightarrow>
          (case getClient e p (cq_TargetConfig req) of
             (Inl err, p1) \<Rightarrow>
               ((Failure OperationCreate OperationErrorCodeInternalFailure (Error err), None), p1, w)
           | (Inr client, p1) \<Rightarrow>
               (case StartUpload client w (fp_Path props) (fp_Content props)
                       (parse_perm (fp_Permissions props)) of
                  (requestID, client1, w1) \<Rightarrow>
                    ((\<lparr>pr_Operation = OperationCreate,
                       pr_OperationStatus = OperationStatusInProgress,
                       pr_ErrorCode = None, pr_StatusMessage = [],
                       pr_RequestID = requestID, pr_NativeID = fp_Path props,
                       pr_ResourceProperties = None\<rparr>, None),
                     p1\<lparr>p_client := Some client1\<rparr>, w1))))"

definition Read :: "env \<Rightarrow> Plugin \<Rightarrow> world \<Rightarrow> ReadRequest \<Rightarrow> ReadResult ret" where
  "Read e p w req =
     (case getClient e p (rq_TargetConfig req) of
        (Inl err, p1) \<Rightarrow>
          ((\<lparr>rr_ResourceType = rq_ResourceType req, rr_Properties = None,
             rr_ErrorCode = Some OperationErrorCodeInternalFailure\<rparr>, None), p1, w)
      | (Inr client, p1) \<Rightarrow>
          (case ReadFile w (rq_NativeID req) of
             (Inl err, w1) \<Rightarrow>
               (if err = ErrNotFound then
                  ((\<lparr>rr_ResourceType = rq_ResourceType req, rr_Properties = None,
                     rr_ErrorCode = Some OperationErrorCodeNotFound\<rparr>, None), p1, w1)
                else
                  ((\<lparr>rr_ResourceType = rq_ResourceType req, rr_Properties = None,
                     rr_ErrorCode = Some OperationErrorCodeInternalFailure\<rparr>, None), p1, w1))
           | (Inr fileInfo, w1) \<Rightarrow>
               ((\<lparr>rr_ResourceType = rq_ResourceType req,
                  rr_Properties = Some (properties_of e fileInfo),
                  rr_ErrorCode = None\<rparr>, None), p1, w1)))"

text \<open>The tail of \<open>Update\<close>: read the file back and report its current state.\<close>

definition Update_readback :: "env \<Rightarrow> Plugin \<Rightarrow> world \<Rightarrow> UpdateRequest \<Rightarrow> ProgressResult ret" where
  "Update_readback e p w req =
     (case ReadFile w (uq_NativeID req) of
        (Inl err, w1) \<Rightarrow>
          ((Failure OperationUpdate OperationErrorCodeInternalFailure (Error err), None), p, w1)
      | (Inr fileInfo, w1) \<Rightarrow>
          ((\<lparr>pr_Operation = OperationUpdate,
             pr_OperationStatus = OperationStatusSuccess,
             pr_ErrorCode = None, pr_StatusMessage = [],
             pr_RequestID = [], pr_NativeID = uq_NativeID req,
             pr_ResourceProperties = Some (properties_of e fileInfo)\<rparr>, None), p, w1))"

text \<open>The first branch of \<open>Update\<close>: the content changed, or there is no prior state.\<close>

definition Update_upload ::
  "env \<Rightarrow> nat list list \<Rightarrow> Plugin \<Rightarrow> Client \<Rightarrow> world \<Rightarrow> UpdateRequest \<Rightarrow> FileProperties \<Rightarrow>
     ProgressResult ret option" where
  "Update_upload e sched p client w req desiredProps =
     (case StartUpload client w (uq_NativeID req) (fp_Content desiredProps)
             (parse_perm (fp_Permissions desiredProps)) of
        (opID, client1, w1) \<Rightarrow>
          (case poll sched client1 w1 opID of
             None \<Rightarrow> None
           | Some (Inl err, w2) \<Rightarrow>
               Some ((Failure OperationUpdate OperationErrorCodeInternalFailure (Error err), None),
                     p\<lparr>p_client := Some client1\<rparr>, w2)
           | Some (Inr op, w2) \<Rightarrow>
               (if op_State op = StateCompleted then
                  Some (Update_readback e (p\<lparr>p_client := Some client1\<rparr>) w2 req)
                else
                  Some ((Failure OperationUpdate OperationErrorCodeInternalFailure (op_Error op), None),
                        p\<lparr>p_client := Some client1\<rparr>, w2))))"

definition Update ::
  "env \<Rightarrow> nat list list \<Rightarrow> Plugin \<Rightarrow> world \<Rightarrow> UpdateRequest \<Rightarrow> ProgressResult ret option" where
  "Update e sched p w req =
     (case getClient e p (uq_TargetConfig req) of
        (Inl err, p1) \<Rightarrow>
          Some ((Failure OperationUpdate OperationErrorCodeInternalFailure (Error err), None), p1, w)
      | (Inr client, p1) \<Rightarrow>
          (case parseFileProperties (uq_DesiredProperties req) of
             Inl err \<Rightarrow>
               Some ((Failure OperationUpdate OperationErrorCodeInvalidRequest (Error err), None), p1, w)
           | Inr desiredProps \<Rightarrow>
               (case parseFileProperties (uq_PriorProperties req) of
                  Inl err \<Rightarrow> Update_upload e sched p1 client w req desiredProps
                | Inr priorProps \<Rightarrow>
                    (if fp_Content priorProps \<noteq> fp_Content desiredProps then
                       Update_upload e sched p1 client w req desiredProps
                     else if fp_Permissions priorProps \<noteq> fp_Permissions desiredProps then
                       (case SetPermissions w (uq_NativeID req)
                               (case Sscanf_o (fp_Permissions desiredProps) of None \<Rightarrow> 420 | Some m \<Rightarrow> m) of
                          (Some err, w1) \<Rightarrow>
                            Some ((Failure OperationUpdate OperationErrorCodeInternalFailure (sftp_Error err), None),
                                  p1, w1)
                        | (None, w1) \<Rightarrow> Some (Update_readback e p1 w1 req))
                     else Some (Update_readback e p1 w req)))))"

definition Delete ::
  "env \<Rightarrow> nat list list \<Rightarrow> Plugin \<Rightarrow> world \<Rightarrow> DeleteRequest \<Rightarrow> ProgressResult ret option" where
  "Delete e sched p w req =
     (case getClient e p (dq_TargetConfig req) of
        (Inl err, p1) \<Rightarrow>
          Some ((Failure OperationDelete OperationErrorCodeInternalFailure (Error err), None), p1, w)
      | (Inr client, p1) \<Rightarrow>
          (case ReadFile w (dq_NativeID req) of
             (Inl err, w1) \<Rightarrow>
               (if err = ErrNotFound then
                  Some (((Failure OperationDelete OperationErrorCodeNotFound [])
                           \<lparr>pr_NativeID := dq_NativeID req\<rparr>, None), p1, w1)
                else
                  Some ((Failure OperationDelete OperationErrorCodeInternalFailure (Error err), None), p1, w1))
           | (Inr fileInfo, w1) \<Rightarrow>
               (case StartDelete client w1 (dq_NativeID req) of
                  (opID, client1, w2) \<Rightarrow>
                    (case poll sched client1 w2 opID of
                       None \<Rightarrow> None
                     | Some (Inl err, w3) \<Rightarrow>
                         Some ((Failure OperationDelete OperationErrorCodeInternalFailure (Error err), None),
                               p1\<lparr>p_client := Some client1\<rparr>, w3)
                     | Some (Inr op, w3) \<Rightarrow>
                         (if op_State op = StateCompleted then
                            Some ((\<lparr>pr_Operation = OperationDelete,
                                    pr_OperationStatus = OperationStatusSuccess,
                                    pr_ErrorCode = None, pr_StatusMessage = [],
                                    pr_RequestID = [], pr_NativeID = dq_NativeID req,
                                    pr_ResourceProperties = None\<rparr>, None),
                                  p1\<lparr>p_client := Some client1\<rparr>, w3)
                          else
                            Some ((Failure OperationDelete OperationErrorCodeInternalFailure (op_Error op), None),
                                  p1\<lparr>p_client := Some client1\<rparr>, w3))))))"

definition Status :: "env \<Rightarrow> Plugin \<Rightarrow> world \<Rightarrow> StatusRequest \<Rightarrow> ProgressResult ret" where
  "Status e p w req =
     (case p_client p of
        None \<Rightarrow>
          ((Failure OperationCheckStatus OperationErrorCodeInternalFailure ''no client available'', None), p, w)
      | Some client \<Rightarrow>
          (case GetStatus client w (sq_RequestID req) of
             Inl err \<Rightarrow>
               ((Failure OperationCheckStatus OperationErrorCodeInternalFailure (Error err), None), p, w)
           | Inr op \<Rightarrow>
               ((\<lparr>pr_Operation = OperationCheckStatus,
                  pr_OperationStatus =
                    (case op_State op of
                       StateInProgress \<Rightarrow> OperationStatusInProgress
                     | StateCompleted \<Rightarrow> OperationStatusSuccess
                     | StateFailure \<Rightarrow> OperationStatusFailure),
                  pr_ErrorCode =
                    (case op_State op of
                       StateFailure \<Rightarrow> Some OperationErrorCodeInternalFailure
                     | _ \<Rightarrow> None),
                  pr_StatusMessage = op_Error op,
                  pr_RequestID = sq_RequestID req,
                  pr_NativeID = op_Path op,
                  pr_ResourceProperties =
                    (case op_State op of
                       StateCompleted \<Rightarrow> map_option (properties_of e) (op_Result op)
                     | _ \<Rightarrow> None)\<rparr>, None), p, w)))"

definition List :: "env \<Rightarrow> Plugin \<Rightarrow> world \<Rightarrow> ListRequest \<Rightarrow> ListResult ret" where
  "List e p w req =
     (case getClient e p (lq_TargetConfig req) of
        (Inl err, p1) \<Rightarrow> ((\<lparr>lr_NativeIDs = [], lr_NextPageToken = None\<rparr>, None), p1, w)
      | (Inr client, p1) \<Rightarrow>
          (case ListFiles w (case lq_AdditionalProperties req ''directory'' of
                              None \<Rightarrow> ''/upload'' | Some d \<Rightarrow> d) of
             (Inl err, w1) \<Rightarrow> ((\<lparr>lr_NativeIDs = [], lr_NextPageToken = None\<rparr>, None), p1, w1)
           | (Inr paths, w1) \<Rightarrow> ((\<lparr>lr_NativeIDs = paths, lr_NextPageToken = None\<rparr>, None), p1, w1)))"

section \<open>Example environments and states\<close>

definition env_ok :: env where
  "env_ok =
     \<lparr>url_Parse = (\<lambda>u. Inr (''sftp'', ''localhost'', ''2222'')),
      SFTP_USERNAME = ''testuser'', SFTP_PASSWORD = ''testpass'',
      ssh_Dial = (\<lambda>a. None), sftp_NewClient = None,
      time_Format = (\<lambda>t. replicate t CHR ''s'')\<rparr>"

definition env_down :: env where
  "env_down = env_ok\<lparr>ssh_Dial := (\<lambda>a. Some ''connection refused'')\<rparr>"

definition target0 :: "TargetConfig json" where
  "target0 = Decoded \<lparr>tc_URL = ''sftp://localhost:2222''\<rparr>"

definition op0 :: Operation where
  "op0 = \<lparr>op_ID = [], op_Type = OperationTypeUpload, op_Path = [],
          op_State = StateInProgress, op_Error = [], op_Result = None,
          op_StartedAt = 0, op_CompletedAt = 0\<rparr>"

definition world0 :: world where
  "world0 =
     \<lparr>files = Map.empty, create_perm = 420, listing = (\<lambda>d. Inl NoSuchFile),
      faults = [], clock = 1, uuid_seq = (\<lambda>n. ''job-'' @ replicate n CHR ''i''),
      uuid_used = 0, heap = (\<lambda>a. op0), heap_next = 0, goroutines = []\<rparr>"

definition plugin0 :: Plugin where
  "plugin0 = \<lparr>p_client = None\<rparr>"

definition plugin1 :: Plugin where
  "plugin1 = \<lparr>p_client = Some \<lparr>operations = Map.empty\<rparr>\<rparr>"

definition req_missing :: ReadRequest where
  "req_missing =
     \<lparr>rq_NativeID = ''/upload/missing.txt'', rq_ResourceType = ''SFTP::Files::File'',
      rq_TargetConfig = target0\<rparr>"

text \<open>
  What it means for the answer of a verb to report an internal failure: a progress
  result says Failure with code InternalFailure, a read result carries the code, and a
  list result, which has neither status nor code, could only come with a Go error.
\<close>

datatype verb_result = ProgressOf ProgressResult | ReadOf ReadResult | ListOf ListResult

fun reports_InternalFailure :: "verb_result \<Rightarrow> error option \<Rightarrow> bool" where
  "reports_InternalFailure (ProgressOf r) err =
     (pr_OperationStatus r = OperationStatusFailure \<and>
      pr_ErrorCode r = Some OperationErrorCodeInternalFailure)"
| "reports_InternalFailure (ReadOf r) err = (rr_ErrorCode r = Some OperationErrorCodeInternalFailure)"
| "reports_InternalFailure (ListOf r) err = (err \<noteq> None)"

definition props_a :: FileProperties where
  "props_a =
     \<lparr>fp_Path = ''/upload/a.txt'', fp_Content = ''hi'', fp_Permissions = ''0644'',
      fp_Size = 0, fp_ModifiedAt = []\<rparr>"

definition update_same :: UpdateRequest where
  "update_same =
     \<lparr>uq_NativeID = ''/upload/a.txt'', uq_PriorProperties = Decoded props_a,
      uq_DesiredProperties = Decoded props_a, uq_TargetConfig = target0\<rparr>"

definition world_a :: world where
  "world_a = world0\<lparr>files := [''/upload/a.txt'' \<mapsto> \<lparr>r_content = ''hi'', r_mode = 420, r_mtime = 0\<rparr>]\<rparr>"

section \<open>Runs of a single goroutine\<close>

text \<open>
  \<open>run_go k\<close> lets one goroutine take its next \<open>k\<close> steps with nothing in between;
  \<open>resume\<close> puts the goroutine, if it has not returned, back behind the others.
\<close>

fun run_go :: "nat \<Rightarrow> world \<Rightarrow> goroutine \<Rightarrow> world \<times> goroutine option" where
  "run_go 0 w g = (w, Some g)"
| "run_go (Suc k) w g =
     (case go_step w g of
        (w1, None) \<Rightarrow> (w1, None)
      | (w1, Some g') \<Rightarrow> run_go k w1 g')"

definition resume :: "goroutine list \<Rightarrow> world \<times> goroutine option \<Rightarrow> world" where
  "resume gs x = (case x of (w1, None) \<Rightarrow> w1\<lparr>goroutines := gs\<rparr> | (w1, Some g') \<Rightarrow> w1\<lparr>goroutines := gs @ [g']\<rparr>)"

section \<open>Further example requests and states\<close>



definition first_delete :: "string \<times> Client \<times> world" where
  "first_delete = StartDelete \<lparr>operations = Map.empty\<rparr> world_a ''/upload/a.txt''"

definition after_first :: world where
  "after_first = run_sched [0, 0] (snd (snd first_delete))"

definition second_delete :: "string \<times> Client \<times> world" where
  "second_delete = StartDelete (fst (snd first_delete)) after_first ''/upload/a.txt''"

definition after_second :: world where
  "after_second = run_sched [0, 0] (snd (snd second_delete))"

definition upload_a :: "string \<times> Client \<times> world" where
  "upload_a = StartUpload \<lparr>operations = Map.empty\<rparr> world0 ''/upload/a.txt'' ''hi'' 420"


text \<open>
  A server whose next answer is a lost connection, and an upload whose mode string
  "1755" asks for the sticky bit on top of \<open>0755\<close>.
\<close>

definition world_lost :: world where
  "world_lost = world0\<lparr>faults := [Some (StatusError ''connection lost'')]\<rparr>"



section \<open>Reachable states of the store\<close>

text \<open>
  The states of a client's store that the program can reach: a fresh client with no job
  in flight, then any sequence of job starts, goroutine steps and synchronous calls.
\<close>

inductive reachable :: "Client \<Rightarrow> world \<Rightarrow> bool" where
  fresh: "goroutines w = [] \<Longrightarrow> reachable \<lparr>operations = Map.empty\<rparr> w"
| upload: "reachable c w \<Longrightarrow> StartUpload c w path content permissions = (opID, c', w') \<Longrightarrow>
           reachable c' w'"
| delete: "reachable c w \<Longrightarrow> StartDelete c w path = (opID, c', w') \<Longrightarrow> reachable c' w'"
| step: "reachable c w \<Longrightarrow> reachable c (sched_step i w)"
| read: "reachable c w \<Longrightarrow> reachable c (snd (ReadFile w path))"
| chmod: "reachable c w \<Longrightarrow> reachable c (snd (SetPermissions w path permissions))"
| list: "reachable c w \<Longrightarrow> reachable c (snd (ListFiles w dir))"

text \<open>
  What holds of a job record while its goroutine runs (\<open>running_ok\<close>, with \<open>pc_ok\<close>
  tying the record to the program point), and once the goroutine has returned
  (\<open>settled_ok\<close>).
\<close>

definition pc_ok :: "pc \<Rightarrow> Operation \<Rightarrow> bool" where
  "pc_ok l op =
     (case l of
        AtComplete st err \<Rightarrow>
          (st = StateCompleted \<and> err = None \<and>
             (op_Type op = OperationTypeUpload \<longleftrightarrow> op_Result op \<noteq> None))
          \<or> (st = StateFailure \<and> (\<exists>m. err = Some m \<and> m \<noteq> []) \<and> op_Result op = None)
      | AtRemove \<Rightarrow> op_Type op = OperationTypeDelete \<and> op_Result op = None
      | AtResult st \<Rightarrow> op_Type op = OperationTypeUpload \<and> op_Result op = None
      | _ \<Rightarrow> op_Type op = OperationTypeUpload \<and> op_Result op = None)"

definition running_ok :: "world \<Rightarrow> goroutine \<Rightarrow> bool" where
  "running_ok w g =
     (g_op g < heap_next w \<and> op_State (heap w (g_op g)) = StateInProgress \<and>
      op_Error (heap w (g_op g)) = [] \<and> pc_ok (g_pc g) (heap w (g_op g)))"

definition settled_ok :: "Operation \<Rightarrow> bool" where
  "settled_ok op =
     ((op_State op = StateCompleted \<or> op_State op = StateFailure) \<and>
      (op_Error op \<noteq> [] \<longleftrightarrow> op_State op = StateFailure) \<and>
      (op_Result op \<noteq> None \<longleftrightarrow> op_State op = StateCompleted \<and> op_Type op = OperationTypeUpload))"

definition store_inv :: "Client \<Rightarrow> world \<Rightarrow> bool" where
  "store_inv c w =
     (distinct (map g_op (goroutines w)) \<and>
      (\<forall>g \<in> set (goroutines w). running_ok w g) \<and>
      (\<forall>opID a. operations c opID = Some a \<longrightarrow>
         a < heap_next w \<and> (a \<in> g_op ` set (goroutines w) \<or> settled_ok (heap w a))))"

section \<open>An upload among other jobs\<close>




section \<open>Basic facts\<close>

lemma Copy_id [simp]: "Copy x = x"
  by (simp add: Copy_def split: option.splits)

lemma getClient_fails: "getClient e p tc = (Inl err, p1) \<Longrightarrow> p1 = p \<and> p_client p = None"
  by (auto simp: getClient_def split: option.splits sum.splits prod.splits)

lemma getClient_env_down:
  "getClient env_down plugin0 target0 =
     (Inl (Errorf ''failed to create SFTP client: ssh dial failed: connection refused''), plugin0)"
  by (simp add: getClient_def env_down_def env_ok_def plugin0_def target0_def parseTargetConfig_def
      parseURL_def getCredentials_def NewClient_def)

lemma getClient_env_ok: "getClient env_ok plugin0 target0 = (Inr \<lparr>operations = Map.empty\<rparr>, plugin1)"
  by (simp add: getClient_def env_ok_def plugin0_def plugin1_def target0_def parseTargetConfig_def
      parseURL_def getCredentials_def NewClient_def)

lemma ReadFile_absent:
  "files w path = None \<Longrightarrow> next_fault w = None \<Longrightarrow>
   ReadFile w path = (Inl ErrNotFound, w\<lparr>faults := tl (faults w)\<rparr>)"
  by (simp add: ReadFile_def sftp_Stat_def take_fault_def)

lemma StartUpload_eq:
  "StartUpload c w path content permissions =
     (uuid_seq w (uuid_used w),
      c\<lparr>operations := (operations c)(uuid_seq w (uuid_used w) \<mapsto> heap_next w)\<rparr>,
      w\<lparr>uuid_used := Suc (uuid_used w), clock := Suc (clock w),
        heap := (heap w)(heap_next w :=
          \<lparr>op_ID = uuid_seq w (uuid_used w), op_Type = OperationTypeUpload, op_Path = path,
           op_State = StateInProgress, op_Error = [], op_Result = None,
           op_StartedAt = clock w, op_CompletedAt = 0\<rparr>),
        heap_next := Suc (heap_next w),
        goroutines := goroutines w @
          [\<lparr>g_op = heap_next w, g_content = content, g_permissions = permissions, g_pc = AtCreate\<rparr>]\<rparr>)"
  by (simp add: StartUpload_def uuid_New_def Now_def new_Operation_def spawn_def)

lemma StartDelete_eq:
  "StartDelete c w path =
     (uuid_seq w (uuid_used w),
      c\<lparr>operations := (operations c)(uuid_seq w (uuid_used w) \<mapsto> heap_next w)\<rparr>,
      w\<lparr>uuid_used := Suc (uuid_used w), clock := Suc (clock w),
        heap := (heap w)(heap_next w :=
          \<lparr>op_ID = uuid_seq w (uuid_used w), op_Type = OperationTypeDelete, op_Path = path,
           op_State = StateInProgress, op_Error = [], op_Result = None,
           op_StartedAt = clock w, op_CompletedAt = 0\<rparr>),
        heap_next := Suc (heap_next w),
        goroutines := goroutines w @
          [\<lparr>g_op = heap_next w, g_content = [], g_permissions = 0, g_pc = AtRemove\<rparr>]\<rparr>)"
  by (simp add: StartDelete_def uuid_New_def Now_def new_Operation_def spawn_def)



lemma Perm_toChmodPerm: "Perm (toChmodPerm m) = m mod 512"
proof -
  define k :: nat where "k = (if odd (m div 2 ^ 11) \<or> odd (m div 2 ^ 23) then 4 else 0)
            + (if odd (m div 2 ^ 10) \<or> odd (m div 2 ^ 22) then 2 else 0)
            + (if odd (m div 2 ^ 9) \<or> odd (m div 2 ^ 20) then 1 else 0)"
  have "toChmodPerm m = 512 * k + m mod 512"
    unfolding toChmodPerm_def k_def by (simp split: if_splits)
  then have "Perm (toChmodPerm m) = (512 * k + m mod 512) mod 512" by (simp add: Perm_def)
  also have "\<dots> = m mod 512" by (simp only: mod_mult_self4 mod_mod_trivial)
  finally show ?thesis .
qed

lemma take_fault_empty: "faults w = [] \<Longrightarrow> take_fault w = (None, w)"
  by (simp add: take_fault_def next_fault_def)

lemma ReadFile_only_faults: "(snd (ReadFile w path))\<lparr>faults := faults w\<rparr> = w"
  by (simp add: ReadFile_def sftp_Stat_def sftp_Open_def sftp_ReadAll_def sftp_Close_def take_fault_def
      split: option.splits sum.splits prod.splits)

lemma ReadFile_frame:
  "files (snd (ReadFile w path)) = files w"
  "heap (snd (ReadFile w path)) = heap w"
  "goroutines (snd (ReadFile w path)) = goroutines w"
proof -
  have "files ((snd (ReadFile w path))\<lparr>faults := faults w\<rparr>) = files w"
       "heap ((snd (ReadFile w path))\<lparr>faults := faults w\<rparr>) = heap w"
       "goroutines ((snd (ReadFile w path))\<lparr>faults := faults w\<rparr>) = goroutines w"
    by (simp_all only: ReadFile_only_faults)
  then show "files (snd (ReadFile w path)) = files w"
    "heap (snd (ReadFile w path)) = heap w"
    "goroutines (snd (ReadFile w path)) = goroutines w"
    by simp_all
qed

lemma ReadFile_present:
  "files w path = Some f \<Longrightarrow> faults w = [] \<Longrightarrow>
   ReadFile w path =
     (Inr \<lparr>fi_Path = path, fi_Content = r_content f,
           fi_Permissions = Sprintf_04o (Perm (r_mode f)),
           fi_Size = int (length (r_content f)), fi_ModifiedAt = r_mtime f\<rparr>, w)"
  by (simp add: ReadFile_def sftp_Stat_def sftp_Open_def sftp_ReadAll_def sftp_Close_def
      take_fault_empty stat_of_def)

subsection \<open>Goroutine steps and schedules\<close>

lemmas sftp_defs = sftp_Stat_def sftp_Open_def sftp_ReadAll_def sftp_Create_def sftp_Write_def
  sftp_Close_def sftp_Chmod_def sftp_Remove_def sftp_ReadDir_def take_fault_def next_fault_def

lemma go_step_goroutines_update:
  "go_step (w\<lparr>goroutines := X\<rparr>) g = (case go_step w g of (w1, r) \<Rightarrow> (w1\<lparr>goroutines := X\<rparr>, r))"
  by (cases "g_pc g")
     (simp_all add: go_step_def sftp_defs completeOperation_def set_Result_def Now_def
       split: option.splits list.splits)

lemma go_step_goroutines: "goroutines (fst (go_step w g)) = goroutines w"
  by (cases "g_pc g")
     (simp_all add: go_step_def sftp_defs completeOperation_def set_Result_def Now_def
       split: option.splits list.splits)

lemma sched_step_last:
  "sched_step (length gs) (w\<lparr>goroutines := gs @ [g]\<rparr>) = resume gs (go_step w g)"
  by (simp add: sched_step_def go_step_goroutines_update resume_def split: prod.splits option.splits)

lemma sched_step_idle: "length (goroutines w) \<le> i \<Longrightarrow> sched_step i w = w"
  by (simp add: sched_step_def)

lemma run_sched_idle: "\<forall>i \<in> set is. length (goroutines w) \<le> i \<Longrightarrow> run_sched is w = w"
  by (induction "is") (simp_all add: sched_step_idle)

lemma run_sched_last:
  "run_sched (replicate k (length gs)) (w\<lparr>goroutines := gs @ [g]\<rparr>) = resume gs (run_go k w g)"
proof (induction k arbitrary: w g)
  case 0
  then show ?case by (simp add: resume_def)
next
  case (Suc k)
  obtain w1 r where s: "go_step w g = (w1, r)" by (cases "go_step w g")
  show ?case
  proof (cases r)
    case None
    have "run_sched (replicate k (length gs)) (w1\<lparr>goroutines := gs\<rparr>) = w1\<lparr>goroutines := gs\<rparr>"
      by (rule run_sched_idle) simp
    with None s show ?thesis by (simp add: sched_step_last resume_def)
  next
    case (Some g')
    with s Suc.IH [where w = w1 and g = g'] show ?thesis by (simp add: sched_step_last resume_def)
  qed
qed

lemma run_go_doDelete:
  "run_go (Suc (Suc k)) w \<lparr>g_op = a, g_content = c, g_permissions = m, g_pc = AtRemove\<rparr> = (doDelete w a, None)"
  by (simp add: go_step_def doDelete_def sftp_Remove_def split: prod.splits option.splits)


lemma sftp_heap:
  "heap (snd (sftp_Create w p)) = heap w"
  "heap (snd (sftp_Write w p c)) = heap w"
  "heap (snd (sftp_Close w p)) = heap w"
  "heap (snd (sftp_Chmod w p m)) = heap w"
  "heap (snd (sftp_Stat w p)) = heap w"
  "heap (snd (sftp_Remove w p)) = heap w"
  by (simp_all add: sftp_defs split: option.splits list.splits)

lemma sftp_Create_handle: "sftp_Create w p = (Inr f, w1) \<Longrightarrow> f = p"
  by (simp add: sftp_Create_def take_fault_def split: option.splits)








subsection \<open>Delete jobs\<close>


lemma doDelete_present:
  "files w (op_Path (heap w a)) = Some f \<Longrightarrow> faults w = [] \<Longrightarrow>
   doDelete w a = completeOperation (w\<lparr>files := (files w)(op_Path (heap w a) := None)\<rparr>) a StateCompleted None"
  by (simp add: doDelete_def sftp_Remove_def take_fault_empty)

lemma doDelete_absent:
  "files w (op_Path (heap w a)) = None \<Longrightarrow> faults w = [] \<Longrightarrow>
   doDelete w a = completeOperation w a StateCompleted None"
  by (simp add: doDelete_def sftp_Remove_def take_fault_empty)






lemma run_delete_job:
  "run_sched [length gs, length gs]
     (W\<lparr>goroutines := gs @ [\<lparr>g_op = a, g_content = c, g_permissions = m, g_pc = AtRemove\<rparr>]\<rparr>) =
   (doDelete W a)\<lparr>goroutines := gs\<rparr>"
  using run_sched_last [where k = "Suc (Suc 0)" and gs = gs and w = W
      and g = "\<lparr>g_op = a, g_content = c, g_permissions = m, g_pc = AtRemove\<rparr>"]
  by (simp add: run_go_doDelete resume_def del: run_go.simps)

lemma doDelete_no_fault:
  "faults w = [] \<Longrightarrow>
   doDelete w a =
     completeOperation (w\<lparr>files := (files w)(op_Path (heap w a) := None)\<rparr>) a StateCompleted None"
proof (cases "files w (op_Path (heap w a))")
  case None
  assume "faults w = []"
  moreover from None have "(files w)(op_Path (heap w a) := None) = files w" by auto
  ultimately show ?thesis using None by (simp add: doDelete_absent)
next
  case (Some f)
  assume "faults w = []"
  with Some show ?thesis by (simp add: doDelete_present)
qed

subsection \<open>Upload jobs\<close>

lemma sftp_Create_ok:
  "sftp_Create w p = (Inr f, w1) \<Longrightarrow>
   \<exists>rf. files w1 p = Some rf \<and> r_content rf = []"
  by (auto simp: sftp_Create_def take_fault_def split: option.splits)

lemma sftp_Write_ok:
  "sftp_Write w p c = (None, w1) \<Longrightarrow> files w p = Some rf \<Longrightarrow>
   \<exists>rf'. files w1 p = Some rf' \<and> r_content rf' = c"
  by (auto simp: sftp_Write_def take_fault_def split: option.splits)

lemma sftp_Close_files: "files (snd (sftp_Close w p)) = files w"
  by (simp add: sftp_Close_def take_fault_def)

lemma sftp_Chmod_ok:
  "sftp_Chmod w p m = (None, w1) \<Longrightarrow> files w p = Some rf \<Longrightarrow>
   files w1 p = Some (rf\<lparr>r_mode := toChmodPerm m\<rparr>)"
  by (auto simp: sftp_Chmod_def take_fault_def split: option.splits)

lemma sftp_Stat_ok:
  "sftp_Stat w p = (Inr st, w1) \<Longrightarrow> files w p = Some rf \<Longrightarrow>
   files w1 = files w \<and> st = stat_of rf"
  by (auto simp: sftp_Stat_def take_fault_def split: option.splits)

lemma completeOperation_fields:
  "files (completeOperation w a st err) = files w"
  "op_State (heap (completeOperation w a st err) a) = st"
  "op_Result (heap (completeOperation w a st err) a) = op_Result (heap w a)"
  by (simp_all add: completeOperation_def Now_def)

lemma doUpload_Completed:
  assumes "op_State (heap (doUpload w a c m) a) = StateCompleted"
  shows "\<exists>rf. files (doUpload w a c m) (op_Path (heap w a)) = Some rf
           \<and> r_content rf = c \<and> r_mode rf = toChmodPerm m
           \<and> op_Result (heap (doUpload w a c m) a) =
               Some \<lparr>fi_Path = op_Path (heap w a), fi_Content = c,
                     fi_Permissions = Sprintf_04o (Perm (r_mode rf)),
                     fi_Size = int (length c), fi_ModifiedAt = r_mtime rf\<rparr>"
proof -
  let ?p = "op_Path (heap w a)"
  obtain r1 w1 where c1: "sftp_Create w ?p = (r1, w1)" by (cases "sftp_Create w ?p")
  have h1: "heap w1 = heap w" using sftp_heap(1) [of w ?p] c1 by simp
  show ?thesis
  proof (cases r1)
    case (Inl err)
    with c1 assms show ?thesis by (simp add: doUpload_def completeOperation_fields)
  next
    case (Inr f)
    with c1 have f: "f = ?p" using sftp_Create_handle by blast
    from c1 Inr sftp_Create_ok obtain rf1 where rf1: "files w1 ?p = Some rf1" by blast
    obtain r2 w2 where c2: "sftp_Write w1 ?p c = (r2, w2)" by (cases "sftp_Write w1 ?p c")
    have h2: "heap w2 = heap w" using sftp_heap(2) [of w1 ?p c] c2 h1 by simp
    obtain r3 w3 where c3: "sftp_Close w2 ?p = (r3, w3)" by (cases "sftp_Close w2 ?p")
    have h3: "heap w3 = heap w" using sftp_heap(3) [of w2 ?p] c3 h2 by simp
    have f3: "files w3 = files w2" using sftp_Close_files [of w2 ?p] c3 by simp
    show ?thesis
    proof (cases "if r3 \<noteq> None \<and> r2 = None then r3 else r2")
      case (Some err')
      with Inr f c1 c2 c3 h1 h2 assms show ?thesis
        by (simp add: doUpload_def completeOperation_fields)
    next
      case None
      then have r2: "r2 = None" by (auto split: if_splits)
      from sftp_Write_ok [of w1 ?p c w2 rf1] c2 r2 rf1 obtain rf2 where
        rf2: "files w2 ?p = Some rf2" "r_content rf2 = c" by auto
      obtain r4 w4 where c4: "sftp_Chmod w3 ?p m = (r4, w4)" by (cases "sftp_Chmod w3 ?p m")
      have h4: "heap w4 = heap w" using sftp_heap(4) [of w3 ?p m] c4 h3 by simp
      show ?thesis
      proof (cases r4)
        case (Some err')
        with None Inr f c1 c2 c3 c4 h1 h2 h3 assms show ?thesis
          by (simp add: doUpload_def completeOperation_fields)
      next
        case n4: None
        from sftp_Chmod_ok [of w3 ?p m w4 rf2] c4 n4 rf2 f3
        have rf4: "files w4 ?p = Some (rf2\<lparr>r_mode := toChmodPerm m\<rparr>)" by simp
        obtain r5 w5 where c5: "sftp_Stat w4 ?p = (r5, w5)" by (cases "sftp_Stat w4 ?p")
        have h5: "heap w5 = heap w" using sftp_heap(5) [of w4 ?p] c5 h4 by simp
        show ?thesis
        proof (cases r5)
          case (Inl err')
          with n4 None Inr f c1 c2 c3 c4 c5 h1 h2 h3 h4 assms show ?thesis
            by (simp add: doUpload_def completeOperation_fields)
        next
          case i5: (Inr st)
          from sftp_Stat_ok [of w4 ?p st w5 "rf2\<lparr>r_mode := toChmodPerm m\<rparr>"] c5 i5 rf4
          have s5: "files w5 = files w4" "st = stat_of (rf2\<lparr>r_mode := toChmodPerm m\<rparr>)" by simp_all
          have d: "doUpload w a c m = completeOperation (set_Result w5 a c st) a StateCompleted None"
            using i5 n4 None Inr f c1 c2 c3 c4 c5 h1 h2 h3 h4 by (simp add: doUpload_def)
          have "files (doUpload w a c m) ?p = Some (rf2\<lparr>r_mode := toChmodPerm m\<rparr>)"
            unfolding d using s5 rf4 by (simp add: completeOperation_fields set_Result_def)
          moreover have "op_Result (heap (doUpload w a c m) a) =
               Some \<lparr>fi_Path = ?p, fi_Content = c,
                     fi_Permissions = Sprintf_04o (Perm (toChmodPerm m)),
                     fi_Size = int (length c), fi_ModifiedAt = r_mtime rf2\<rparr>"
            unfolding d using s5 rf2 h5 by (simp add: completeOperation_fields set_Result_def stat_of_def)
          ultimately show ?thesis using rf2 by simp
        qed
      qed
    qed
  qed
qed





lemma run_go_before_complete:
  "faults w = [] \<Longrightarrow>
   \<exists>w' t. run_go (Suc (Suc (Suc (Suc (Suc (Suc 0)))))) w
       \<lparr>g_op = a, g_content = c, g_permissions = m, g_pc = AtCreate\<rparr> =
     (w', Some \<lparr>g_op = a, g_content = c, g_permissions = m, g_pc = AtComplete StateCompleted None\<rparr>)
   \<and> op_State (heap w' a) = op_State (heap w a)
   \<and> op_Type (heap w' a) = op_Type (heap w a)
   \<and> op_Result (heap w' a) =
       Some \<lparr>fi_Path = op_Path (heap w a), fi_Content = c,
             fi_Permissions = Sprintf_04o (Perm (toChmodPerm m)),
             fi_Size = int (length c), fi_ModifiedAt = t\<rparr>"
  by (simp add: go_step_def sftp_Create_def sftp_Write_def sftp_Close_def sftp_Chmod_def sftp_Stat_def
      take_fault_empty set_Result_def stat_of_def)

subsection \<open>What holds of every job record in a reachable state\<close>

text \<open>
  In every reachable state each goroutine's record is in progress with an empty error
  message, and each registered record whose goroutine has returned is settled
  (\<open>reachable_store_inv\<close>). Hence a registered record has an error message exactly when
  it has Failed, has a result only if it is an Upload that has not Failed, and has one
  whenever it is a Completed Upload (\<open>registered_record\<close>); and a record that has left
  the state InProgress is never written again (\<open>terminal_record_frozen\<close>).
\<close>

lemma go_step_effect:
  assumes "go_step w g = (w1, r)"
  shows "heap_next w1 = heap_next w \<and> (\<forall>a. a \<noteq> g_op g \<longrightarrow> heap w1 a = heap w a) \<and>
         (case r of
            Some g' \<Rightarrow> g_op g' = g_op g \<and> (running_ok w g \<longrightarrow> running_ok w1 g')
          | None \<Rightarrow> running_ok w g \<longrightarrow> settled_ok (heap w1 (g_op g)))"
  using assms
  by (cases "g_pc g")
     (auto simp: go_step_def sftp_defs set_Result_def completeOperation_def Now_def
        running_ok_def pc_ok_def settled_ok_def
        split: option.splits list.splits if_splits)


lemma running_ok_cong:
  "heap w1 (g_op g) = heap w (g_op g) \<Longrightarrow> heap_next w1 = heap_next w \<Longrightarrow>
   running_ok w1 g = running_ok w g"
  by (simp add: running_ok_def)

lemma store_inv_sched_step:
  assumes inv: "store_inv c w"
  shows "store_inv c (sched_step i w)"
proof (cases "i < length (goroutines w)")
  case False
  with inv show ?thesis by (simp add: sched_step_def)
next
  case True
  let ?gs = "goroutines w"
  let ?g = "?gs ! i"
  obtain w1 r where s: "go_step w ?g = (w1, r)" by (cases "go_step w ?g")
  have gw1: "goroutines w1 = ?gs" using go_step_goroutines [of w ?g] s by simp
  from inv have d: "distinct (map g_op ?gs)" and ok: "\<forall>g \<in> set ?gs. running_ok w g"
    and reg: "\<forall>opID a. operations c opID = Some a \<longrightarrow>
         a < heap_next w \<and> (a \<in> g_op ` set ?gs \<or> settled_ok (heap w a))"
    by (simp_all add: store_inv_def)
  from True have gi: "?g \<in> set ?gs" by simp
  have split: "?gs = take i ?gs @ ?g # drop (Suc i) ?gs"
    using True by (rule id_take_nth_drop)
  have others: "\<forall>g \<in> set (take i ?gs @ drop (Suc i) ?gs). g_op g \<noteq> g_op ?g \<and> g \<in> set ?gs"
  proof
    fix g assume g: "g \<in> set (take i ?gs @ drop (Suc i) ?gs)"
    from d split have "distinct (map g_op (take i ?gs @ ?g # drop (Suc i) ?gs))" by simp
    with g have "g_op g \<noteq> g_op ?g" by (auto simp: image_iff)
    moreover from g have "g \<in> set ?gs" by (auto dest: in_set_takeD in_set_dropD)
    ultimately show "g_op g \<noteq> g_op ?g \<and> g \<in> set ?gs" by simp
  qed
  note e = go_step_effect [OF s]
  have keep: "\<And>g. g \<in> set ?gs \<Longrightarrow> g_op g \<noteq> g_op ?g \<Longrightarrow> running_ok w1 g"
    using e ok running_ok_cong by blast
  show ?thesis
  proof (cases r)
    case None
    with s True gw1 have w': "sched_step i w = w1\<lparr>goroutines := take i ?gs @ drop (Suc i) ?gs\<rparr>"
      by (simp add: sched_step_def)
    from e None ok gi have settled: "settled_ok (heap w1 (g_op ?g))" by simp
    have 1: "distinct (map g_op (take i ?gs @ drop (Suc i) ?gs))"
    proof -
      from d split have "distinct (map g_op (take i ?gs @ ?g # drop (Suc i) ?gs))" by simp
      then show ?thesis by simp
    qed
    have 2: "\<forall>g \<in> set (take i ?gs @ drop (Suc i) ?gs). running_ok w1 g"
      using others keep by blast
    have 3: "\<forall>opID a. operations c opID = Some a \<longrightarrow>
         a < heap_next w1 \<and>
         (a \<in> g_op ` set (take i ?gs @ drop (Suc i) ?gs) \<or> settled_ok (heap w1 a))"
    proof (intro allI impI)
      fix opID a assume "operations c opID = Some a"
      with reg have a: "a < heap_next w" "a \<in> g_op ` set ?gs \<or> settled_ok (heap w a)" by auto
      show "a < heap_next w1 \<and>
         (a \<in> g_op ` set (take i ?gs @ drop (Suc i) ?gs) \<or> settled_ok (heap w1 a))"
      proof (cases "a = g_op ?g")
        case True
        with settled a e show ?thesis by simp
      next
        case False
        with e have h: "heap w1 a = heap w a" by simp
        from a(2) show ?thesis
        proof
          assume "a \<in> g_op ` set ?gs"
          then obtain g where "g \<in> set ?gs" "a = g_op g" by auto
          with False split have "g \<in> set (take i ?gs @ drop (Suc i) ?gs)"
            by (metis Un_iff set_ConsD set_append)
          with \<open>a = g_op g\<close> a e show ?thesis by auto
        next
          assume "settled_ok (heap w a)"
          with h a e show ?thesis by simp
        qed
      qed
    qed
    show ?thesis unfolding w' store_inv_def using 1 2 3 by (simp add: running_ok_def)
  next
    case (Some g')
    with s True gw1 have w': "sched_step i w = w1\<lparr>goroutines := ?gs[i := g']\<rparr>"
      by (simp add: sched_step_def)
    from e Some ok gi have g': "g_op g' = g_op ?g" "running_ok w1 g'" by simp_all
    have m: "map g_op (?gs[i := g']) = map g_op ?gs"
      using g'(1) True by (simp add: map_update list_update_same_conv)
    have 2: "\<forall>g \<in> set (?gs[i := g']). running_ok w1 g"
    proof
      fix g assume "g \<in> set (?gs[i := g'])"
      then have "g = g' \<or> g \<in> set (take i ?gs @ drop (Suc i) ?gs)"
        using True by (auto simp: upd_conv_take_nth_drop)
      with g'(2) others keep show "running_ok w1 g" by blast
    qed
    have 3: "\<forall>opID a. operations c opID = Some a \<longrightarrow>
         a < heap_next w1 \<and> (a \<in> g_op ` set (?gs[i := g']) \<or> settled_ok (heap w1 a))"
    proof (intro allI impI)
      fix opID a assume "operations c opID = Some a"
      with reg have a: "a < heap_next w" "a \<in> g_op ` set ?gs \<or> settled_ok (heap w a)" by auto
      have img: "g_op ` set (?gs[i := g']) = g_op ` set ?gs"
        using m by (metis set_map)
      from a(2) show "a < heap_next w1 \<and> (a \<in> g_op ` set (?gs[i := g']) \<or> settled_ok (heap w1 a))"
      proof
        assume "a \<in> g_op ` set ?gs"
        with img a e show ?thesis by simp
      next
        assume st: "settled_ok (heap w a)"
        show ?thesis
        proof (cases "a = g_op ?g")
          case True
          with gi img a e show ?thesis by auto
        next
          case False
          with e st a show ?thesis by simp
        qed
      qed
    qed
    show ?thesis unfolding w' store_inv_def using d m 2 3 by (simp add: running_ok_def)
  qed
qed


lemma store_inv_start:
  assumes inv: "store_inv c w"
    and op: "op_State op = StateInProgress" "op_Error op = []" "op_Result op = None"
      "pc_ok l op"
  shows "store_inv (c\<lparr>operations := (operations c)(opID \<mapsto> heap_next w)\<rparr>)
           (w\<lparr>uuid_used := u, clock := t, heap := (heap w)(heap_next w := op),
              heap_next := Suc (heap_next w),
              goroutines := goroutines w @
                [\<lparr>g_op = heap_next w, g_content = content, g_permissions = m, g_pc = l\<rparr>]\<rparr>)"
proof -
  from inv have d: "distinct (map g_op (goroutines w))"
    and ok: "\<forall>g \<in> set (goroutines w). running_ok w g"
    and reg: "\<forall>opID a. operations c opID = Some a \<longrightarrow>
         a < heap_next w \<and> (a \<in> g_op ` set (goroutines w) \<or> settled_ok (heap w a))"
    by (simp_all add: store_inv_def)
  from ok have below: "\<forall>g \<in> set (goroutines w). g_op g < heap_next w"
    by (simp add: running_ok_def)
  then have fresh: "heap_next w \<notin> g_op ` set (goroutines w)" by auto
  show ?thesis
    unfolding store_inv_def
  proof (intro conjI)
    show "distinct (map g_op (goroutines
            (w\<lparr>uuid_used := u, clock := t, heap := (heap w)(heap_next w := op),
              heap_next := Suc (heap_next w),
              goroutines := goroutines w @
                [\<lparr>g_op = heap_next w, g_content = content, g_permissions = m, g_pc = l\<rparr>]\<rparr>)))"
      using d fresh by simp
  next
    show "\<forall>g \<in> set (goroutines
            (w\<lparr>uuid_used := u, clock := t, heap := (heap w)(heap_next w := op),
              heap_next := Suc (heap_next w),
              goroutines := goroutines w @
                [\<lparr>g_op = heap_next w, g_content = content, g_permissions = m, g_pc = l\<rparr>]\<rparr>)).
            running_ok
             (w\<lparr>uuid_used := u, clock := t, heap := (heap w)(heap_next w := op),
              heap_next := Suc (heap_next w),
              goroutines := goroutines w @
                [\<lparr>g_op = heap_next w, g_content = content, g_permissions = m, g_pc = l\<rparr>]\<rparr>) g"
      using ok below op by (auto simp: running_ok_def)
  next
    show "\<forall>opID' a.
            operations (c\<lparr>operations := (operations c)(opID \<mapsto> heap_next w)\<rparr>) opID' = Some a \<longrightarrow>
            a < heap_next
                 (w\<lparr>uuid_used := u, clock := t, heap := (heap w)(heap_next w := op),
                    heap_next := Suc (heap_next w),
                    goroutines := goroutines w @
                      [\<lparr>g_op = heap_next w, g_content = content, g_permissions = m, g_pc = l\<rparr>]\<rparr>) \<and>
            (a \<in> g_op ` set (goroutines
                 (w\<lparr>uuid_used := u, clock := t, heap := (heap w)(heap_next w := op),
                    heap_next := Suc (heap_next w),
                    goroutines := goroutines w @
                      [\<lparr>g_op = heap_next w, g_content = content, g_permissions = m, g_pc = l\<rparr>]\<rparr>)) \<or>
             settled_ok (heap
                 (w\<lparr>uuid_used := u, clock := t, heap := (heap w)(heap_next w := op),
                    heap_next := Suc (heap_next w),
                    goroutines := goroutines w @
                      [\<lparr>g_op = heap_next w, g_content = content, g_permissions = m, g_pc = l\<rparr>]\<rparr>) a))"
      using reg by (auto simp: less_Suc_eq)
  qed
qed

lemma store_inv_frame:
  "store_inv c w \<Longrightarrow> heap w' = heap w \<Longrightarrow> heap_next w' = heap_next w \<Longrightarrow>
   goroutines w' = goroutines w \<Longrightarrow> store_inv c w'"
  by (simp add: store_inv_def running_ok_def)

lemma sync_calls_frame:
  "heap (snd (ReadFile w path)) = heap w \<and> heap_next (snd (ReadFile w path)) = heap_next w \<and>
   goroutines (snd (ReadFile w path)) = goroutines w"
  "heap (snd (SetPermissions w path m)) = heap w \<and>
   heap_next (snd (SetPermissions w path m)) = heap_next w \<and>
   goroutines (snd (SetPermissions w path m)) = goroutines w"
  "heap (snd (ListFiles w dir)) = heap w \<and> heap_next (snd (ListFiles w dir)) = heap_next w \<and>
   goroutines (snd (ListFiles w dir)) = goroutines w"
  by (simp_all add: ReadFile_def SetPermissions_def ListFiles_def sftp_defs
      split: option.splits sum.splits list.splits)

lemma reachable_store_inv: "reachable c w \<Longrightarrow> store_inv c w"
proof (induction rule: reachable.induct)
  case (fresh w)
  then show ?case by (simp add: store_inv_def)
next
  case (upload c w path content permissions opID c' w')
  from upload.hyps(2) have "c' = c\<lparr>operations := (operations c)(uuid_seq w (uuid_used w) \<mapsto> heap_next w)\<rparr>"
    and "w' = w\<lparr>uuid_used := Suc (uuid_used w), clock := Suc (clock w),
        heap := (heap w)(heap_next w :=
          \<lparr>op_ID = uuid_seq w (uuid_used w), op_Type = OperationTypeUpload, op_Path = path,
           op_State = StateInProgress, op_Error = [], op_Result = None,
           op_StartedAt = clock w, op_CompletedAt = 0\<rparr>),
        heap_next := Suc (heap_next w),
        goroutines := goroutines w @
          [\<lparr>g_op = heap_next w, g_content = content, g_permissions = permissions, g_pc = AtCreate\<rparr>]\<rparr>"
    by (auto simp: StartUpload_eq)
  then show ?case using store_inv_start [OF upload.IH, where l = AtCreate]
    by (simp add: pc_ok_def)
next
  case (delete c w path opID c' w')
  from delete.hyps(2) have "c' = c\<lparr>operations := (operations c)(uuid_seq w (uuid_used w) \<mapsto> heap_next w)\<rparr>"
    and "w' = w\<lparr>uuid_used := Suc (uuid_used w), clock := Suc (clock w),
        heap := (heap w)(heap_next w :=
          \<lparr>op_ID = uuid_seq w (uuid_used w), op_Type = OperationTypeDelete, op_Path = path,
           op_State = StateInProgress, op_Error = [], op_Result = None,
           op_StartedAt = clock w, op_CompletedAt = 0\<rparr>),
        heap_next := Suc (heap_next w),
        goroutines := goroutines w @
          [\<lparr>g_op = heap_next w, g_content = [], g_permissions = 0, g_pc = AtRemove\<rparr>]\<rparr>"
    by (auto simp: StartDelete_eq)
  then show ?case using store_inv_start [OF delete.IH, where l = AtRemove]
    by (simp add: pc_ok_def)
next
  case (step c w i)
  then show ?case by (simp add: store_inv_sched_step)
next
  case (read c w path)
  then show ?case using store_inv_frame sync_calls_frame(1) by blast
next
  case (chmod c w path permissions)
  then show ?case using store_inv_frame sync_calls_frame(2) by blast
next
  case (list c w dir)
  then show ?case using store_inv_frame sync_calls_frame(3) by blast
qed


lemma registered_record:
  assumes "reachable c w" and "GetStatus c w opID = Inr op"
  shows "(op_Error op \<noteq> [] \<longleftrightarrow> op_State op = StateFailure)
       \<and> (op_Result op \<noteq> None \<longrightarrow> op_Type op = OperationTypeUpload \<and> op_State op \<noteq> StateFailure)
       \<and> (op_State op = StateCompleted \<and> op_Type op = OperationTypeUpload \<longrightarrow> op_Result op \<noteq> None)"
proof -
  from assms(2) obtain a where a: "operations c opID = Some a" "op = heap w a"
    by (auto simp: GetStatus_def split: option.splits)
  from reachable_store_inv [OF assms(1)] a(1)
  have "a \<in> g_op ` set (goroutines w) \<and> (\<forall>g \<in> set (goroutines w). running_ok w g)
        \<or> settled_ok (heap w a)"
    by (auto simp: store_inv_def)
  then show ?thesis
  proof
    assume "a \<in> g_op ` set (goroutines w) \<and> (\<forall>g \<in> set (goroutines w). running_ok w g)"
    then obtain g where "g_op g = a" "running_ok w g" by auto
    then show ?thesis unfolding a(2)
      by (cases "g_pc g") (auto simp: running_ok_def pc_ok_def)
  next
    assume "settled_ok (heap w a)"
    then show ?thesis unfolding a(2) by (auto simp: settled_ok_def)
  qed
qed

lemma sched_step_heap_other:
  "a \<notin> g_op ` set (goroutines w) \<Longrightarrow> heap (sched_step i w) a = heap w a"
proof (cases "i < length (goroutines w)")
  case False
  then show ?thesis by (simp add: sched_step_def)
next
  case True
  assume n: "a \<notin> g_op ` set (goroutines w)"
  obtain w1 r where s: "go_step w (goroutines w ! i) = (w1, r)"
    by (cases "go_step w (goroutines w ! i)")
  from n True have "a \<noteq> g_op (goroutines w ! i)" by (metis imageI nth_mem)
  with go_step_effect [OF s] have "heap w1 a = heap w a" by simp
  with s True show ?thesis by (cases r) (simp_all add: sched_step_def)
qed

lemma terminal_record_frozen:
  assumes "reachable c w" and "operations c opID = Some a"
    and "op_State (heap w a) \<noteq> StateInProgress"
  shows "heap (sched_step i w) a = heap w a
       \<and> heap (snd (snd (StartUpload c w path content m))) a = heap w a
       \<and> heap (snd (snd (StartDelete c w path))) a = heap w a"
proof -
  from reachable_store_inv [OF assms(1)] assms(2)
  have ok: "\<forall>g \<in> set (goroutines w). running_ok w g" and lt: "a < heap_next w"
    by (auto simp: store_inv_def)
  have "a \<notin> g_op ` set (goroutines w)"
  proof
    assume "a \<in> g_op ` set (goroutines w)"
    then obtain g where "g \<in> set (goroutines w)" "g_op g = a" by auto
    with ok have "op_State (heap w a) = StateInProgress" by (auto simp: running_ok_def)
    with assms(3) show False by simp
  qed
  then have "heap (sched_step i w) a = heap w a" by (rule sched_step_heap_other)
  with lt show ?thesis by (simp add: StartUpload_eq StartDelete_eq)
qed


lemma run_sched_reachable: "reachable c w \<Longrightarrow> reachable c (run_sched is w)"
  by (induction "is" arbitrary: w) (simp_all add: reachable.step)

subsection \<open>An upload is not disturbed by jobs on other paths\<close>












subsection \<open>The polling loop, round by round\<close>







subsection \<open>The outcomes of a read\<close>

lemma ReadFile_NotFound_iff:
  "fst (ReadFile w path) = Inl ErrNotFound \<longleftrightarrow>
     next_fault w = Some NoSuchFile \<or> next_fault w = None \<and> files w path = None"
proof (cases "next_fault w")
  case None
  then show ?thesis
    by (cases "files w path")
       (auto simp: ReadFile_def sftp_Stat_def sftp_Open_def sftp_ReadAll_def take_fault_def
          split: option.splits sum.splits prod.splits)
next
  case (Some e)
  then show ?thesis
    by (cases e) (simp_all add: ReadFile_def sftp_Stat_def take_fault_def)
qed

lemma ReadFile_transport_fault:
  "next_fault w = Some (StatusError m) \<Longrightarrow>
   ReadFile w path = (Inl (Errorf (''stat failed: '' @ m)), w\<lparr>faults := tl (faults w)\<rparr>)"
  by (simp add: ReadFile_def sftp_Stat_def take_fault_def)

lemma ReadFile_open_fault:
  "faults w = None # Some e # rest \<Longrightarrow> files w path = Some f \<Longrightarrow>
   ReadFile w path = (Inl (Errorf (''open failed: '' @ sftp_Error e)), w\<lparr>faults := rest\<rparr>)"
  by (simp add: ReadFile_def sftp_Stat_def sftp_Open_def take_fault_def next_fault_def)

lemma ReadFile_read_fault:
  "faults w = None # None # Some e # rest \<Longrightarrow> files w path = Some f \<Longrightarrow>
   ReadFile w path = (Inl (Errorf (''read failed: '' @ sftp_Error e)), w\<lparr>faults := tl rest\<rparr>)"
  by (simp add: ReadFile_def sftp_Stat_def sftp_Open_def sftp_ReadAll_def sftp_Close_def
      take_fault_def next_fault_def)

subsection \<open>Modes beyond the permission bits\<close>






section \<open>Status before any client exists\<close>

text \<open>
  C10. When \<open>Status\<close> is called while the plugin's client is still nil, it does not
  touch the client: it returns a Failure result with error code InternalFailure and
  the message "no client available", a nil Go error, and leaves plugin and world as
  they were.
\<close>

theorem Status_without_client:
  "p_client p = None \<Longrightarrow>
   Status e p w req =
     ((\<lparr>pr_Operation = OperationCheckStatus, pr_OperationStatus = OperationStatusFailure,
        pr_ErrorCode = Some OperationErrorCodeInternalFailure,
        pr_StatusMessage = ''no client available'',
        pr_RequestID = [], pr_NativeID = [], pr_ResourceProperties = None\<rparr>, None), p, w)"
  by (simp add: Status_def Failure_def)

theorem Status_without_client_witness:
  "p_client plugin0 = None \<and>
   Status env_ok plugin0 world0 \<lparr>sq_RequestID = ''job-''\<rparr> =
     ((\<lparr>pr_Operation = OperationCheckStatus, pr_OperationStatus = OperationStatusFailure,
        pr_ErrorCode = Some OperationErrorCodeInternalFailure,
        pr_StatusMessage = ''no client available'',
        pr_RequestID = [], pr_NativeID = [], pr_ResourceProperties = None\<rparr>, None), plugin0, world0)"
proof -
  have h: "p_client plugin0 = None" by (simp add: plugin0_def)
  show ?thesis using h Status_without_client [OF h] by simp
qed

section \<open>Reading an absent path\<close>

text \<open>
  C5. Once the client is at hand, \<open>Read\<close> of a path that the server does not have (and
  whose \<open>Stat\<close> meets no transport fault) returns a result with error code NotFound and
  no properties. \<open>Read\<close> never returns a Go error. The result carries NotFound exactly
  when \<open>ReadFile\<close> reported its \<open>ErrNotFound\<close>, and InternalFailure exactly when the
  read itself failed with any other error; the two outcomes are never confused.
  In terms of the server: NotFound is reported exactly when \<open>Stat\<close> answers that the
  file does not exist, be it that the path is absent or that the server says so. A
  \<open>Stat\<close> that fails with any other status gives InternalFailure, and so does a failing
  \<open>Open\<close> or a failing read of a file that is there.
\<close>

theorem Read_absent_NotFound:
  assumes "getClient e p (rq_TargetConfig req) = (Inr client, p1)"
  shows "(files w (rq_NativeID req) = None \<and> next_fault w = None \<longrightarrow>
           Read e p w req =
             ((\<lparr>rr_ResourceType = rq_ResourceType req, rr_Properties = None,
                rr_ErrorCode = Some OperationErrorCodeNotFound\<rparr>, None),
              p1, w\<lparr>faults := tl (faults w)\<rparr>))
       \<and> snd (fst (Read e p w req)) = None
       \<and> (rr_ErrorCode (fst (fst (Read e p w req))) = Some OperationErrorCodeNotFound
            \<longleftrightarrow> fst (ReadFile w (rq_NativeID req)) = Inl ErrNotFound)
       \<and> (rr_ErrorCode (fst (fst (Read e p w req))) = Some OperationErrorCodeInternalFailure
            \<longleftrightarrow> (\<exists>m. fst (ReadFile w (rq_NativeID req)) = Inl (Errorf m)))
       \<and> (rr_ErrorCode (fst (fst (Read e p w req))) = Some OperationErrorCodeNotFound
            \<longleftrightarrow> next_fault w = Some NoSuchFile \<or>
                next_fault w = None \<and> files w (rq_NativeID req) = None)
       \<and> (\<forall>m. next_fault w = Some (StatusError m) \<longrightarrow>
             Read e p w req =
               ((\<lparr>rr_ResourceType = rq_ResourceType req, rr_Properties = None,
                  rr_ErrorCode = Some OperationErrorCodeInternalFailure\<rparr>, None),
                p1, w\<lparr>faults := tl (faults w)\<rparr>))
       \<and> (\<forall>f err rest.
             files w (rq_NativeID req) = Some f \<and>
             (faults w = None # Some err # rest \<or> faults w = None # None # Some err # rest) \<longrightarrow>
               fst (Read e p w req) =
                 (\<lparr>rr_ResourceType = rq_ResourceType req, rr_Properties = None,
                   rr_ErrorCode = Some OperationErrorCodeInternalFailure\<rparr>, None))"
proof -
  obtain r w1 where rf: "ReadFile w (rq_NativeID req) = (r, w1)"
    by (cases "ReadFile w (rq_NativeID req)")
  have old: "(files w (rq_NativeID req) = None \<and> next_fault w = None \<longrightarrow>
           Read e p w req =
             ((\<lparr>rr_ResourceType = rq_ResourceType req, rr_Properties = None,
                rr_ErrorCode = Some OperationErrorCodeNotFound\<rparr>, None),
              p1, w\<lparr>faults := tl (faults w)\<rparr>))
       \<and> snd (fst (Read e p w req)) = None
       \<and> (rr_ErrorCode (fst (fst (Read e p w req))) = Some OperationErrorCodeNotFound
            \<longleftrightarrow> fst (ReadFile w (rq_NativeID req)) = Inl ErrNotFound)
       \<and> (rr_ErrorCode (fst (fst (Read e p w req))) = Some OperationErrorCodeInternalFailure
            \<longleftrightarrow> (\<exists>m. fst (ReadFile w (rq_NativeID req)) = Inl (Errorf m)))"
  proof (cases r)
    case (Inl err)
    then show ?thesis using assms rf ReadFile_absent [of w "rq_NativeID req"]
      by (cases err) (auto simp: Read_def)
  next
    case (Inr fi)
    then show ?thesis using assms rf ReadFile_absent [of w "rq_NativeID req"]
      by (auto simp: Read_def)
  qed
  then have nf: "rr_ErrorCode (fst (fst (Read e p w req))) = Some OperationErrorCodeNotFound
            \<longleftrightarrow> next_fault w = Some NoSuchFile \<or>
                next_fault w = None \<and> files w (rq_NativeID req) = None"
    using ReadFile_NotFound_iff [of w "rq_NativeID req"] by simp
  have tf: "\<forall>m. next_fault w = Some (StatusError m) \<longrightarrow>
             Read e p w req =
               ((\<lparr>rr_ResourceType = rq_ResourceType req, rr_Properties = None,
                  rr_ErrorCode = Some OperationErrorCodeInternalFailure\<rparr>, None),
                p1, w\<lparr>faults := tl (faults w)\<rparr>)"
    using assms by (simp add: Read_def ReadFile_transport_fault)
  have lf: "\<forall>f err rest.
             files w (rq_NativeID req) = Some f \<and>
             (faults w = None # Some err # rest \<or> faults w = None # None # Some err # rest) \<longrightarrow>
               fst (Read e p w req) =
                 (\<lparr>rr_ResourceType = rq_ResourceType req, rr_Properties = None,
                   rr_ErrorCode = Some OperationErrorCodeInternalFailure\<rparr>, None)"
    using assms by (auto simp: Read_def ReadFile_open_fault ReadFile_read_fault)
  from old nf tf lf show ?thesis by (intro conjI) simp_all
qed

theorem Read_absent_NotFound_witness:
  "Read env_ok plugin0 world0 req_missing =
     ((\<lparr>rr_ResourceType = ''SFTP::Files::File'', rr_Properties = None,
        rr_ErrorCode = Some OperationErrorCodeNotFound\<rparr>, None), plugin1, world0)
   \<and> snd (fst (Read env_ok plugin0 world0 req_missing)) = None
   \<and> Read env_ok plugin0 world_lost req_missing =
     ((\<lparr>rr_ResourceType = ''SFTP::Files::File'', rr_Properties = None,
        rr_ErrorCode = Some OperationErrorCodeInternalFailure\<rparr>, None), plugin1, world0)"
proof -
  have g: "getClient env_ok plugin0 (rq_TargetConfig req_missing) = (Inr \<lparr>operations = Map.empty\<rparr>, plugin1)"
    by (simp add: req_missing_def getClient_env_ok)
  have a: "files world0 (rq_NativeID req_missing) = None \<and> next_fault world0 = None"
    by (simp add: world0_def req_missing_def next_fault_def)
  have w: "world0\<lparr>faults := tl (faults world0)\<rparr> = world0" by (simp add: world0_def)
  have l: "next_fault world_lost = Some (StatusError ''connection lost'')"
    "world_lost\<lparr>faults := tl (faults world_lost)\<rparr> = world0"
    by (simp_all add: world_lost_def world0_def next_fault_def)
  have 1: "Read env_ok plugin0 world0 req_missing =
     ((\<lparr>rr_ResourceType = ''SFTP::Files::File'', rr_Properties = None,
        rr_ErrorCode = Some OperationErrorCodeNotFound\<rparr>, None), plugin1, world0)
   \<and> snd (fst (Read env_ok plugin0 world0 req_missing)) = None"
    using Read_absent_NotFound [OF g, where w = world0] a w by (simp add: req_missing_def)
  have 2: "Read env_ok plugin0 world_lost req_missing =
     ((\<lparr>rr_ResourceType = ''SFTP::Files::File'', rr_Properties = None,
        rr_ErrorCode = Some OperationErrorCodeInternalFailure\<rparr>, None), plugin1, world0)"
    using Read_absent_NotFound [OF g, where w = world_lost] l by (simp add: req_missing_def)
  from 1 2 show ?thesis by simp
qed

section \<open>Completing a job\<close>

text \<open>
  C9 as stated fails: \<open>completeOperation\<close> receives the job record itself, not an id,
  never looks into the client's map and has no way to fail. Completing a record whose
  id is registered nowhere silently takes effect.
\<close>

theorem completeOperation_unregistered_counterexample:
  "operations \<lparr>operations = Map.empty\<rparr> (op_ID (heap world0 0)) = None
   \<and> op_State (heap world0 0) = StateInProgress
   \<and> op_State (heap (completeOperation world0 0 StateCompleted None) 0) = StateCompleted
   \<and> op_CompletedAt (heap (completeOperation world0 0 StateCompleted None) 0) = 1"
  by (simp add: completeOperation_def Now_def world0_def op0_def)

text \<open>
  C9, amended. \<open>completeOperation\<close> always succeeds: whatever record it is handed,
  registered or not, it sets the state, stamps the completion time and, when an error
  is given, stores its message; no other record changes. An unknown id is rejected
  only by \<open>GetStatus\<close>, with the error "operation not found: <id>".
\<close>

theorem completeOperation_never_fails:
  "heap (completeOperation w op state err) op =
     (heap w op)\<lparr>op_State := state, op_CompletedAt := clock w,
                  op_Error := (case err of None \<Rightarrow> op_Error (heap w op) | Some m \<Rightarrow> m)\<rparr>
   \<and> (\<forall>a. a \<noteq> op \<longrightarrow> heap (completeOperation w op state err) a = heap w a)
   \<and> (operations c operationID = None \<longrightarrow>
        GetStatus c w operationID = Inl (Errorf (''operation not found: '' @ operationID)))"
  by (simp add: completeOperation_def Now_def GetStatus_def split: option.splits)

theorem completeOperation_never_fails_witness:
  "heap (completeOperation world0 0 StateCompleted None) 0 =
     op0\<lparr>op_State := StateCompleted, op_CompletedAt := 1\<rparr>
   \<and> heap (completeOperation world0 0 StateCompleted None) 1 = op0
   \<and> GetStatus \<lparr>operations = Map.empty\<rparr> world0 ''job-'' = Inl (Errorf ''operation not found: job-'')"
  using completeOperation_never_fails
          [of world0 0 StateCompleted None "\<lparr>operations = Map.empty\<rparr>" "''job-''"]
  by (simp add: world0_def)

section \<open>When the session cannot be established\<close>

text \<open>
  C6 as stated fails for \<open>List\<close>: when the client cannot be created, \<open>List\<close> answers
  with an empty list of native ids and a nil error, which reports no failure at all.
\<close>

theorem List_connection_failure_counterexample:
  "fst (getClient env_down plugin0 target0) =
     Inl (Errorf ''failed to create SFTP client: ssh dial failed: connection refused'')
   \<and> fst (List env_down plugin0 world0 \<lparr>lq_TargetConfig = target0, lq_AdditionalProperties = Map.empty\<rparr>) =
       (\<lparr>lr_NativeIDs = [], lr_NextPageToken = None\<rparr>, None)
   \<and> \<not> reports_InternalFailure
         (ListOf (fst (fst (List env_down plugin0 world0
            \<lparr>lq_TargetConfig = target0, lq_AdditionalProperties = Map.empty\<rparr>))))
         (snd (fst (List env_down plugin0 world0
            \<lparr>lq_TargetConfig = target0, lq_AdditionalProperties = Map.empty\<rparr>)))"
  by (simp add: List_def getClient_env_down)

text \<open>
  C6, amended. When the client cannot be obtained, \<open>Create\<close> (with valid properties),
  \<open>Update\<close> and \<open>Delete\<close> return Failure with code InternalFailure and the error's
  message, \<open>Read\<close> returns a result with code InternalFailure, \<open>Status\<close> returns Failure
  with code InternalFailure and "no client available", and \<open>List\<close> returns an empty
  list of native ids. No verb returns a Go error, and none creates a job: plugin and
  world are returned unchanged.
\<close>

theorem connection_failure_no_job:
  assumes "getClient e p tc = (Inl err, p1)"
  shows "(\<forall>props. parseFileProperties cprops = Inr props \<longrightarrow>
            Create e p w \<lparr>cq_Properties = cprops, cq_TargetConfig = tc\<rparr> =
              ((Failure OperationCreate OperationErrorCodeInternalFailure (Error err), None), p, w))
       \<and> Read e p w \<lparr>rq_NativeID = nativeID, rq_ResourceType = rt, rq_TargetConfig = tc\<rparr> =
           ((\<lparr>rr_ResourceType = rt, rr_Properties = None,
              rr_ErrorCode = Some OperationErrorCodeInternalFailure\<rparr>, None), p, w)
       \<and> Update e sched p w
           \<lparr>uq_NativeID = nativeID, uq_PriorProperties = prior, uq_DesiredProperties = desired,
            uq_TargetConfig = tc\<rparr> =
           Some ((Failure OperationUpdate OperationErrorCodeInternalFailure (Error err), None), p, w)
       \<and> Delete e sched p w \<lparr>dq_NativeID = nativeID, dq_TargetConfig = tc\<rparr> =
           Some ((Failure OperationDelete OperationErrorCodeInternalFailure (Error err), None), p, w)
       \<and> Status e p w sreq =
           ((Failure OperationCheckStatus OperationErrorCodeInternalFailure ''no client available'', None), p, w)
       \<and> List e p w \<lparr>lq_TargetConfig = tc, lq_AdditionalProperties = ap\<rparr> =
           ((\<lparr>lr_NativeIDs = [], lr_NextPageToken = None\<rparr>, None), p, w)"
proof -
  from assms have p: "p1 = p" "p_client p = None"
    using getClient_fails by blast+
  show ?thesis
    using assms p by (simp add: Create_def Read_def Update_def Delete_def Status_def List_def)
qed

theorem connection_failure_no_job_witness:
  "Create env_down plugin0 world0 \<lparr>cq_Properties = Decoded props_a, cq_TargetConfig = target0\<rparr> =
     ((Failure OperationCreate OperationErrorCodeInternalFailure
         ''failed to create SFTP client: ssh dial failed: connection refused'', None), plugin0, world0)
   \<and> Delete env_down [] plugin0 world0 \<lparr>dq_NativeID = ''/upload/a.txt'', dq_TargetConfig = target0\<rparr> =
     Some ((Failure OperationDelete OperationErrorCodeInternalFailure
         ''failed to create SFTP client: ssh dial failed: connection refused'', None), plugin0, world0)
   \<and> List env_down plugin0 world0 \<lparr>lq_TargetConfig = target0, lq_AdditionalProperties = Map.empty\<rparr> =
     ((\<lparr>lr_NativeIDs = [], lr_NextPageToken = None\<rparr>, None), plugin0, world0)"
proof -
  have v: "parseFileProperties (Decoded props_a) = Inr props_a"
    by (simp add: parseFileProperties_def props_a_def)
  show ?thesis
    using connection_failure_no_job [OF getClient_env_down,
        of "Decoded props_a" world0 "''/upload/a.txt''" "[]" "[]" "Decoded props_a" "Decoded props_a"
           "\<lparr>sq_RequestID = []\<rparr>" Map.empty] v
    by simp
qed

section \<open>Create\<close>



section \<open>Update without a change\<close>

text \<open>
  C8 as stated fails: with prior and desired properties equal, \<open>Update\<close> still reads the
  file back, and when the server does not have the file it returns Failure, not
  Success.
\<close>

theorem Update_unchanged_counterexample:
  "uq_PriorProperties update_same = Decoded props_a
   \<and> uq_DesiredProperties update_same = Decoded props_a
   \<and> Update env_ok [] plugin0 world0 update_same =
       Some ((Failure OperationUpdate OperationErrorCodeInternalFailure ''file not found'', None),
             plugin1, world0)"
  by (simp add: Update_def update_same_def getClient_env_ok parseFileProperties_def props_a_def
      Update_readback_def ReadFile_def sftp_Stat_def take_fault_def next_fault_def world0_def)

text \<open>
  C8, amended. When the client is at hand, the prior properties parse, and the desired
  content and permissions equal the prior ones, \<open>Update\<close> starts no job and changes
  neither a file nor a permission: the files, the job records and the goroutines are
  as before, and the plugin's client is untouched. When the desired properties lack
  the path, the verb returns Failure with code InvalidRequest and nothing at all has
  changed. Otherwise it returns whatever the read-back yields: Success with the
  snapshot of the file as the server has it, or Failure with code InternalFailure and
  the read error's message when the read-back fails (as it does when the file is
  absent). With the file present and no transport fault the answer is Success with
  that file's snapshot.
\<close>

theorem Update_unchanged_no_mutation:
  assumes "getClient e p (uq_TargetConfig req) = (Inr client, p1)"
    and "uq_PriorProperties req = Decoded prior"
    and "uq_DesiredProperties req = Decoded desired"
    and "fp_Path prior \<noteq> []"
    and "fp_Content desired = fp_Content prior"
    and "fp_Permissions desired = fp_Permissions prior"
  shows "(fp_Path desired = [] \<longrightarrow>
            Update e sched p w req =
              Some ((Failure OperationUpdate OperationErrorCodeInvalidRequest
                       (''file properties missing '' @ [CHR 0x27] @ ''path'' @ [CHR 0x27]), None),
                    p1, w))
       \<and> (fp_Path desired \<noteq> [] \<longrightarrow>
          (\<exists>r w'. Update e sched p w req = Some ((r, None), p1, w')
           \<and> files w' = files w \<and> heap w' = heap w \<and> goroutines w' = goroutines w
           \<and> (case fst (ReadFile w (uq_NativeID req)) of
                 Inl err \<Rightarrow> r = Failure OperationUpdate OperationErrorCodeInternalFailure (Error err)
               | Inr fileInfo \<Rightarrow>
                   r = \<lparr>pr_Operation = OperationUpdate, pr_OperationStatus = OperationStatusSuccess,
                        pr_ErrorCode = None, pr_StatusMessage = [],
                        pr_RequestID = [], pr_NativeID = uq_NativeID req,
                        pr_ResourceProperties = Some (properties_of e fileInfo)\<rparr>)
           \<and> (\<forall>f. files w (uq_NativeID req) = Some f \<and> faults w = [] \<longrightarrow>
                 w' = w \<and>
                 pr_OperationStatus r = OperationStatusSuccess \<and>
                 pr_ResourceProperties r =
                   Some \<lparr>fp_Path = uq_NativeID req, fp_Content = r_content f,
                         fp_Permissions = Sprintf_04o (Perm (r_mode f)),
                         fp_Size = int (length (r_content f)),
                         fp_ModifiedAt = time_Format e (r_mtime f)\<rparr>)))"
proof (intro conjI impI)
  assume "fp_Path desired = []"
  with assms show "Update e sched p w req =
              Some ((Failure OperationUpdate OperationErrorCodeInvalidRequest
                       (''file properties missing '' @ [CHR 0x27] @ ''path'' @ [CHR 0x27]), None),
                    p1, w)"
    by (simp add: Update_def parseFileProperties_def)
next
  assume dp: "fp_Path desired \<noteq> []"
  have u: "Update e sched p w req = Some (Update_readback e p1 w req)"
    using assms dp by (simp add: Update_def parseFileProperties_def)
  obtain x w1 where rf: "ReadFile w (uq_NativeID req) = (x, w1)"
    by (cases "ReadFile w (uq_NativeID req)")
  have fr: "files w1 = files w" "heap w1 = heap w" "goroutines w1 = goroutines w"
    using ReadFile_frame [of w "uq_NativeID req"] rf by simp_all
  show "\<exists>r w'. Update e sched p w req = Some ((r, None), p1, w')
           \<and> files w' = files w \<and> heap w' = heap w \<and> goroutines w' = goroutines w
           \<and> (case fst (ReadFile w (uq_NativeID req)) of
                 Inl err \<Rightarrow> r = Failure OperationUpdate OperationErrorCodeInternalFailure (Error err)
               | Inr fileInfo \<Rightarrow>
                   r = \<lparr>pr_Operation = OperationUpdate, pr_OperationStatus = OperationStatusSuccess,
                        pr_ErrorCode = None, pr_StatusMessage = [],
                        pr_RequestID = [], pr_NativeID = uq_NativeID req,
                        pr_ResourceProperties = Some (properties_of e fileInfo)\<rparr>)
           \<and> (\<forall>f. files w (uq_NativeID req) = Some f \<and> faults w = [] \<longrightarrow>
                 w' = w \<and>
                 pr_OperationStatus r = OperationStatusSuccess \<and>
                 pr_ResourceProperties r =
                   Some \<lparr>fp_Path = uq_NativeID req, fp_Content = r_content f,
                         fp_Permissions = Sprintf_04o (Perm (r_mode f)),
                         fp_Size = int (length (r_content f)),
                         fp_ModifiedAt = time_Format e (r_mtime f)\<rparr>)"
  proof (cases x)
    case (Inl err)
    then show ?thesis using u rf fr ReadFile_present [of w "uq_NativeID req"]
      by (auto simp: Update_readback_def)
  next
    case (Inr fi)
    then show ?thesis using u rf fr ReadFile_present [of w "uq_NativeID req"]
      by (auto simp: Update_readback_def properties_of_def)
  qed
qed

theorem Update_unchanged_no_mutation_witness:
  "pr_OperationStatus (fst (fst (the (Update env_ok [] plugin0 world_a update_same)))) =
     OperationStatusSuccess
   \<and> pr_ResourceProperties (fst (fst (the (Update env_ok [] plugin0 world_a update_same)))) =
       Some \<lparr>fp_Path = ''/upload/a.txt'', fp_Content = ''hi'', fp_Permissions = ''0644'',
             fp_Size = 2, fp_ModifiedAt = []\<rparr>
   \<and> snd (the (Update env_ok [] plugin0 world_a update_same)) = (plugin1, world_a)
   \<and> Update env_ok [] plugin0 world_a
         (update_same\<lparr>uq_DesiredProperties := Decoded (props_a\<lparr>fp_Path := []\<rparr>)\<rparr>) =
       Some ((Failure OperationUpdate OperationErrorCodeInvalidRequest
                (''file properties missing '' @ [CHR 0x27] @ ''path'' @ [CHR 0x27]), None),
             plugin1, world_a)"
proof -
  have g: "getClient env_ok plugin0 (uq_TargetConfig update_same) = (Inr \<lparr>operations = Map.empty\<rparr>, plugin1)"
    by (simp add: update_same_def getClient_env_ok)
  have g': "getClient env_ok plugin0
       (uq_TargetConfig (update_same\<lparr>uq_DesiredProperties := Decoded (props_a\<lparr>fp_Path := []\<rparr>)\<rparr>)) =
     (Inr \<lparr>operations = Map.empty\<rparr>, plugin1)"
    by (simp add: update_same_def getClient_env_ok)
  have n: "Update env_ok [] plugin0 world_a
         (update_same\<lparr>uq_DesiredProperties := Decoded (props_a\<lparr>fp_Path := []\<rparr>)\<rparr>) =
       Some ((Failure OperationUpdate OperationErrorCodeInvalidRequest
                (''file properties missing '' @ [CHR 0x27] @ ''path'' @ [CHR 0x27]), None),
             plugin1, world_a)"
    using Update_unchanged_no_mutation [OF g', where prior = props_a
        and desired = "props_a\<lparr>fp_Path := []\<rparr>" and sched = "[]" and w = world_a]
    by (simp add: update_same_def props_a_def)
  have f: "files world_a (uq_NativeID update_same) = Some \<lparr>r_content = ''hi'', r_mode = 420, r_mtime = 0\<rparr>"
     "faults world_a = []"
    by (simp_all add: world_a_def world0_def update_same_def)
  have o: "Sprintf_04o (Perm 420) = ''0644''"
    by (simp add: Sprintf_04o_def Perm_def octal.simps octal_digit_def)
  have t: "time_Format env_ok 0 = []"
    by (simp add: env_ok_def)
  from Update_unchanged_no_mutation [OF g, where prior = props_a and desired = props_a
      and sched = "[]" and w = world_a]
  obtain r w' where u: "Update env_ok [] plugin0 world_a update_same = Some ((r, None), plugin1, w')"
    and a: "\<forall>f. files world_a (uq_NativeID update_same) = Some f \<and> faults world_a = [] \<longrightarrow>
                 w' = world_a \<and>
                 pr_OperationStatus r = OperationStatusSuccess \<and>
                 pr_ResourceProperties r =
                   Some \<lparr>fp_Path = uq_NativeID update_same, fp_Content = r_content f,
                         fp_Permissions = Sprintf_04o (Perm (r_mode f)),
                         fp_Size = int (length (r_content f)),
                         fp_ModifiedAt = time_Format env_ok (r_mtime f)\<rparr>"
    by (auto simp: update_same_def props_a_def)
  from a f have "w' = world_a \<and> pr_OperationStatus r = OperationStatusSuccess \<and>
     pr_ResourceProperties r =
       Some \<lparr>fp_Path = ''/upload/a.txt'', fp_Content = ''hi'', fp_Permissions = ''0644'',
             fp_Size = 2, fp_ModifiedAt = []\<rparr>"
    using o t by (simp add: update_same_def)
  with u n show ?thesis by simp
qed

section \<open>Delete\<close>




section \<open>Deleting twice\<close>

text \<open>
  C7. Start a Delete job for a path, let its goroutine run to the end, then start a
  second Delete job for the same path and let it run, with no transport fault on the
  way. Both jobs end Completed, with no error message and no result, whether or not
  the file was there at the beginning; in particular the second job, which finds the
  path absent, succeeds. After the first job the path is absent, the second job
  leaves the files exactly as the first left them, and a job on a path that was
  already absent leaves the files as they were.
\<close>

theorem delete_job_idempotent:
  assumes "faults w = []"
    and "StartDelete c w path = (id1, c1, w1)"
    and "w2 = run_sched [length (goroutines w), length (goroutines w)] w1"
    and "StartDelete c1 w2 path = (id2, c2, w3)"
    and "w4 = run_sched [length (goroutines w), length (goroutines w)] w3"
  shows "\<exists>o1 o2. GetStatus c1 w2 id1 = Inr o1 \<and> GetStatus c2 w4 id2 = Inr o2
           \<and> op_Type o1 = OperationTypeDelete \<and> op_Type o2 = OperationTypeDelete
           \<and> op_Path o1 = path \<and> op_Path o2 = path
           \<and> op_State o1 = StateCompleted \<and> op_State o2 = StateCompleted
           \<and> op_Error o1 = [] \<and> op_Error o2 = []
           \<and> op_Result o1 = None \<and> op_Result o2 = None
           \<and> files w2 path = None \<and> files w4 = files w2
           \<and> (files w path = None \<longrightarrow> files w2 = files w)
           \<and> goroutines w2 = goroutines w \<and> goroutines w4 = goroutines w"
proof -
  let ?n = "length (goroutines w)"
  let ?W1 = "w\<lparr>uuid_used := Suc (uuid_used w), clock := Suc (clock w),
        heap := (heap w)(heap_next w :=
          \<lparr>op_ID = uuid_seq w (uuid_used w), op_Type = OperationTypeDelete, op_Path = path,
           op_State = StateInProgress, op_Error = [], op_Result = None,
           op_StartedAt = clock w, op_CompletedAt = 0\<rparr>),
        heap_next := Suc (heap_next w)\<rparr>"
  from assms(2) have 1: "id1 = uuid_seq w (uuid_used w)"
    "c1 = c\<lparr>operations := (operations c)(uuid_seq w (uuid_used w) \<mapsto> heap_next w)\<rparr>"
    "w1 = ?W1\<lparr>goroutines := goroutines w @
          [\<lparr>g_op = heap_next w, g_content = [], g_permissions = 0, g_pc = AtRemove\<rparr>]\<rparr>"
    by (auto simp: StartDelete_eq)
  have f1: "faults ?W1 = []" "op_Path (heap ?W1 (heap_next w)) = path"
    using assms(1) by simp_all
  have w2: "w2 = (completeOperation (?W1\<lparr>files := (files w)(path := None)\<rparr>) (heap_next w)
                    StateCompleted None)\<lparr>goroutines := goroutines w\<rparr>"
    unfolding assms(3) 1(3) run_delete_job doDelete_no_fault [OF f1(1)] by simp
  have g2: "goroutines w2 = goroutines w" "faults w2 = []" "files w2 = (files w)(path := None)"
    unfolding w2 using assms(1) by (simp_all add: completeOperation_def Now_def)
  let ?W3 = "w2\<lparr>uuid_used := Suc (uuid_used w2), clock := Suc (clock w2),
        heap := (heap w2)(heap_next w2 :=
          \<lparr>op_ID = uuid_seq w2 (uuid_used w2), op_Type = OperationTypeDelete, op_Path = path,
           op_State = StateInProgress, op_Error = [], op_Result = None,
           op_StartedAt = clock w2, op_CompletedAt = 0\<rparr>),
        heap_next := Suc (heap_next w2)\<rparr>"
  from assms(4) have 3: "id2 = uuid_seq w2 (uuid_used w2)"
    "c2 = c1\<lparr>operations := (operations c1)(uuid_seq w2 (uuid_used w2) \<mapsto> heap_next w2)\<rparr>"
    "w3 = ?W3\<lparr>goroutines := goroutines w @
          [\<lparr>g_op = heap_next w2, g_content = [], g_permissions = 0, g_pc = AtRemove\<rparr>]\<rparr>"
    by (auto simp: StartDelete_eq g2)
  have f3: "faults ?W3 = []"
    using g2 by simp
  have w4: "w4 = (completeOperation (?W3\<lparr>files := (files w2)(path := None)\<rparr>) (heap_next w2)
                    StateCompleted None)\<lparr>goroutines := goroutines w\<rparr>"
    unfolding assms(5) 3(3) run_delete_job doDelete_no_fault [OF f3] by simp
  have o1: "GetStatus c1 w2 id1 = Inr (heap w2 (heap_next w))"
    by (simp add: GetStatus_def 1)
  have o2: "GetStatus c2 w4 id2 = Inr (heap w4 (heap_next w2))"
    by (simp add: GetStatus_def 3)
  have h1: "heap w2 (heap_next w) =
      \<lparr>op_ID = uuid_seq w (uuid_used w), op_Type = OperationTypeDelete, op_Path = path,
       op_State = StateCompleted, op_Error = [], op_Result = None,
       op_StartedAt = clock w, op_CompletedAt = Suc (clock w)\<rparr>"
    unfolding w2 by (simp add: completeOperation_def Now_def)
  have h2: "heap w4 (heap_next w2) =
      \<lparr>op_ID = uuid_seq w2 (uuid_used w2), op_Type = OperationTypeDelete, op_Path = path,
       op_State = StateCompleted, op_Error = [], op_Result = None,
       op_StartedAt = clock w2, op_CompletedAt = Suc (clock w2)\<rparr>"
    unfolding w4 by (simp add: completeOperation_def Now_def)
  have f4: "files w4 = files w2" "goroutines w4 = goroutines w"
    unfolding w4 using g2(3) by (simp_all add: completeOperation_def Now_def)
  have f0: "files w path = None \<longrightarrow> files w2 = files w"
    using g2(3) by auto
  show ?thesis
    using o1 o2 h1 h2 f4 f0 g2 by simp
qed


theorem delete_job_idempotent_witness:
  "(case GetStatus (fst (snd first_delete)) after_first (fst first_delete) of
      Inl err \<Rightarrow> False
    | Inr o1 \<Rightarrow> op_State o1 = StateCompleted \<and> op_Error o1 = [] \<and> op_Result o1 = None)
   \<and> (case GetStatus (fst (snd second_delete)) after_second (fst second_delete) of
      Inl err \<Rightarrow> False
    | Inr o2 \<Rightarrow> op_State o2 = StateCompleted \<and> op_Error o2 = [] \<and> op_Result o2 = None)
   \<and> files world_a ''/upload/a.txt'' \<noteq> None
   \<and> files after_first ''/upload/a.txt'' = None
   \<and> files after_second = files after_first"
proof -
  have a: "faults world_a = []" "length (goroutines world_a) = 0"
    "files world_a ''/upload/a.txt'' \<noteq> None"
    by (simp_all add: world_a_def world0_def)
  have 1: "StartDelete \<lparr>operations = Map.empty\<rparr> world_a ''/upload/a.txt'' =
             (fst first_delete, fst (snd first_delete), snd (snd first_delete))"
    by (simp add: first_delete_def)
  have 2: "after_first =
             run_sched [length (goroutines world_a), length (goroutines world_a)] (snd (snd first_delete))"
    by (simp add: after_first_def a)
  have 3: "StartDelete (fst (snd first_delete)) after_first ''/upload/a.txt'' =
             (fst second_delete, fst (snd second_delete), snd (snd second_delete))"
    by (simp add: second_delete_def)
  have 4: "after_second =
             run_sched [length (goroutines world_a), length (goroutines world_a)] (snd (snd second_delete))"
    by (simp add: after_second_def a)
  from delete_job_idempotent [OF a(1) 1 2 3 4] a(3) show ?thesis
    by auto
qed

section \<open>Upload, then read\<close>




section \<open>The job records between start and completion\<close>

text \<open>
  C2 says that a job record carries a result exactly when its state is Completed and
  its kind is Upload. \<open>doUpload\<close> assigns \<open>op.Result\<close> in a statement of its own, before
  it calls \<open>completeOperation\<close> and outside the lock that \<open>completeOperation\<close> holds
  while it sets the state. Between the two statements the record that the client's
  map points to is still in progress and already has its result, and \<open>GetStatus\<close>
  returns it so: start an upload of "hi" to /upload/a.txt with mode 0644 on a fresh
  client and let the goroutine take the six steps up to and including the assignment.
\<close>

theorem result_before_completion:
  "reachable (fst (snd upload_a)) (run_sched [0, 0, 0, 0, 0, 0] (snd (snd upload_a)))
   \<and> (case GetStatus (fst (snd upload_a)) (run_sched [0, 0, 0, 0, 0, 0] (snd (snd upload_a))) (fst upload_a) of
      Inl err \<Rightarrow> False
    | Inr op \<Rightarrow>
        op_Type op = OperationTypeUpload \<and> op_State op = StateInProgress \<and>
        (\<exists>t. op_Result op =
          Some \<lparr>fi_Path = ''/upload/a.txt'', fi_Content = ''hi'', fi_Permissions = ''0644'',
                fi_Size = 2, fi_ModifiedAt = t\<rparr>))"
proof -
  let ?W = "world0\<lparr>uuid_used := Suc (uuid_used world0), clock := Suc (clock world0),
        heap := (heap world0)(heap_next world0 :=
          \<lparr>op_ID = uuid_seq world0 (uuid_used world0), op_Type = OperationTypeUpload,
           op_Path = ''/upload/a.txt'',
           op_State = StateInProgress, op_Error = [], op_Result = None,
           op_StartedAt = clock world0, op_CompletedAt = 0\<rparr>),
        heap_next := Suc (heap_next world0)\<rparr>"
  let ?g = "\<lparr>g_op = heap_next world0, g_content = ''hi'', g_permissions = 420, g_pc = AtCreate\<rparr>"
  have o: "Sprintf_04o (Perm (toChmodPerm 420)) = ''0644''"
    by (simp add: Perm_toChmodPerm Sprintf_04o_def octal.simps octal_digit_def)
  have g: "goroutines world0 = []" and f: "faults ?W = []" by (simp_all add: world0_def)
  have u: "upload_a = (uuid_seq world0 (uuid_used world0),
       \<lparr>operations = [uuid_seq world0 (uuid_used world0) \<mapsto> heap_next world0]\<rparr>,
       ?W\<lparr>goroutines := [] @ [?g]\<rparr>)"
    by (simp add: upload_a_def StartUpload_eq g)
  from run_go_before_complete [OF f, where a = "heap_next world0" and c = "''hi''" and m = 420]
  obtain w' t where r: "run_go (Suc (Suc (Suc (Suc (Suc (Suc 0)))))) ?W ?g =
     (w', Some \<lparr>g_op = heap_next world0, g_content = ''hi'', g_permissions = 420,
               g_pc = AtComplete StateCompleted None\<rparr>)"
    "op_State (heap w' (heap_next world0)) = StateInProgress"
    "op_Type (heap w' (heap_next world0)) = OperationTypeUpload"
    "op_Result (heap w' (heap_next world0)) =
       Some \<lparr>fi_Path = ''/upload/a.txt'', fi_Content = ''hi'', fi_Permissions = ''0644'',
                fi_Size = 2, fi_ModifiedAt = t\<rparr>"
    unfolding o by auto
  have "run_sched [0, 0, 0, 0, 0, 0] (?W\<lparr>goroutines := [] @ [?g]\<rparr>) =
          resume [] (run_go (Suc (Suc (Suc (Suc (Suc (Suc 0)))))) ?W ?g)"
    using run_sched_last [where k = "Suc (Suc (Suc (Suc (Suc (Suc 0)))))" and gs = "[]" and w = ?W and g = ?g]
    by (simp del: run_go.simps)
  then have "heap (run_sched [0, 0, 0, 0, 0, 0] (?W\<lparr>goroutines := [] @ [?g]\<rparr>)) = heap w'"
    unfolding r(1) by (simp add: resume_def)
  with r(2,3,4) have 1: "(case GetStatus (fst (snd upload_a))
        (run_sched [0, 0, 0, 0, 0, 0] (snd (snd upload_a))) (fst upload_a) of
      Inl err \<Rightarrow> False
    | Inr op \<Rightarrow>
        op_Type op = OperationTypeUpload \<and> op_State op = StateInProgress \<and>
        (\<exists>t. op_Result op =
          Some \<lparr>fi_Path = ''/upload/a.txt'', fi_Content = ''hi'', fi_Permissions = ''0644'',
                fi_Size = 2, fi_ModifiedAt = t\<rparr>))"
    unfolding u by (simp add: GetStatus_def del: run_sched.simps)
  have "reachable \<lparr>operations = Map.empty\<rparr> world0"
    by (rule reachable.fresh) (rule g)
  then have "reachable (fst (snd upload_a)) (snd (snd upload_a))"
    by (rule reachable.upload [where path = "''/upload/a.txt''" and content = "''hi''"
          and permissions = 420 and opID = "fst upload_a"]) (simp add: upload_a_def)
  then have 2: "reachable (fst (snd upload_a)) (run_sched [0, 0, 0, 0, 0, 0] (snd (snd upload_a)))"
    by (rule run_sched_reachable)
  from 2 1 show ?thesis by (rule conjI)
qed

end
